theory Spec2Isabelle
  imports Complex_Main
begin

section \<open>Numerical core of the inner-loop solvers (innerloop.py)\<close>

text \<open>
  The program computes with numpy arrays of 64-bit floats. The embedding uses exact real
  numbers: a one-dimensional array is a list of reals and a two-dimensional array (a view,
  rows are samples) is the list of its rows. Where the number of axes of an array is only
  decided at run time, in the ADMM update, the array is a value of the type \<open>ndarray\<close>
  that carries its shape. Rounding is not modelled. Where numpy
  would divide by zero (giving nan or inf with a RuntimeWarning, no exception) the model
  returns the error value \<open>NonFinite\<close> and follows the program no further.
\<close>

type_synonym vec = "real list"
type_synonym mat = "real list list"

datatype error =
    ValueError string
  | UnboundLocalError string
  | AxisError
  | IndexError
  | NonFinite
  | NonTermination

text \<open>\<open>a.T @ b\<close> for two vectors.\<close>

definition dot :: "vec \<Rightarrow> vec \<Rightarrow> real" where
  "dot a b = sum_list (map (\<lambda>(x, y). x * y) (zip a b))"

text \<open>\<open>np.linalg.norm(v)\<close> (and \<open>np.linalg.norm(v, 2)\<close>): the Euclidean norm.\<close>

definition norm2 :: "vec \<Rightarrow> real" where
  "norm2 v = sqrt (sum_list (map (\<lambda>x. x * x) v))"

text \<open>\<open>np.linalg.norm(v, 1)\<close>: the sum of absolute values.\<close>

definition norm1 :: "vec \<Rightarrow> real" where
  "norm1 v = sum_list (map abs v)"

text \<open>
  \<open>v / d\<close> for an array and a scalar. An empty array divides to an empty array; a
  non-empty one divided by zero holds nan or inf.
\<close>

definition vec_div :: "vec \<Rightarrow> real \<Rightarrow> error + vec" where
  "vec_div v d = (if d = 0 \<and> v \<noteq> [] then Inl NonFinite else Inr (map (\<lambda>x. x / d) v))"

subsection \<open>\<open>_soft_threshold\<close>\<close>

text \<open>
  \<^verbatim>\<open>
  def _soft_threshold(x, threshold, positive=False):
      diff = abs(x) - threshold
      diff[diff < 0] = 0
      out = np.sign(x) * diff
      return out
  \<close>
  The parameter \<open>positive\<close> is accepted and never read.
\<close>

definition soft_threshold :: "vec \<Rightarrow> real \<Rightarrow> bool \<Rightarrow> vec" where
  "soft_threshold x threshold positive =
     (let diff = map (\<lambda>a. \<bar>a\<bar> - threshold) x;
          diff = map (\<lambda>d. if d < 0 then 0 else d) diff;
          out = map (\<lambda>(a, d). sgn a * d) (zip x diff)
      in out)"

subsection \<open>\<open>ADMMInnerLoop.prox_lam_g\<close>\<close>

text \<open>
  \<^verbatim>\<open>
  def prox_lam_g(self, x):
      norm = np.linalg.norm(x)
      if norm < 1:
          return x
      else:
          return x / max(1, norm)
  \<close>
  The divisor \<open>max(1, norm)\<close> is at least 1, so this division is always defined.
\<close>

definition prox_lam_g :: "vec \<Rightarrow> vec" where
  "prox_lam_g x =
     (let norm = norm2 x
      in if norm < 1 then x else map (\<lambda>a. a / max 1 norm) x)"

subsection \<open>\<open>_bin_search\<close>\<close>

text \<open>
  \<^verbatim>\<open>
  def _bin_search(current, previous, current_val, previous_val, min_, max_):
      if previous_val is None:
          previous_val = current_val
      if current_val <= 0:
          if previous_val <= 0:
              new = (current + max_) / 2
          if previous_val > 0:
              new = (current + previous) / 2
          if current > min_:
              min_ = current
      if current_val > 0:
          if previous_val > 0:
              new = (current + min_) / 2
          if previous_val <= 0:
              new = (current + previous) / 2
          if current < max_:
              max_ = current
      return new, current, min_, max_
  \<close>
  The bracket variables \<open>min_\<close> and \<open>max_\<close> are written \<open>min_b\<close> and \<open>max_b\<close>.
  The local \<open>new\<close> is assigned only inside the branches; returning it unassigned raises
  UnboundLocalError, so the model carries it as an option.
\<close>

definition bin_search ::
  "real \<Rightarrow> real \<Rightarrow> real \<Rightarrow> real option \<Rightarrow> real \<Rightarrow> real
     \<Rightarrow> error + (real \<times> real \<times> real \<times> real)" where
  "bin_search current previous current_val previous_val min_b max_b =
     (let previous_val = (case previous_val of None \<Rightarrow> current_val | Some v \<Rightarrow> v);
          (new, min_b) =
            (if current_val \<le> 0 then
               (let new = (if previous_val \<le> 0 then Some ((current + max_b) / 2) else None);
                    new = (if previous_val > 0 then Some ((current + previous) / 2) else new);
                    min_b = (if current > min_b then current else min_b)
                in (new, min_b))
             else (None, min_b));
          (new, max_b) =
            (if current_val > 0 then
               (let new = (if previous_val > 0 then Some ((current + min_b) / 2) else new);
                    new = (if previous_val \<le> 0 then Some ((current + previous) / 2) else new);
                    max_b = (if current < max_b then current else max_b)
                in (new, max_b))
             else (new, max_b))
      in case new of
           None \<Rightarrow> Inl (UnboundLocalError ''new'')
         | Some n \<Rightarrow> Inr (n, current, min_b, max_b))"

subsection \<open>\<open>_delta_search\<close>\<close>

text \<open>
  \<^verbatim>\<open>
  def _delta_search(w, c, positive=False, init=0):
      w = w / np.linalg.norm(w, 2)
      converged = False
      min_ = 0
      max_ = 10
      current = init
      previous = current
      previous_val = None
      i = 0
      while not converged:
          i += 1
          coef = _soft_threshold(w, current, positive=positive)
          if np.linalg.norm(coef) > 0:
              coef /= np.linalg.norm(coef)
          current_val = c - np.linalg.norm(coef, 1)
          current, previous, min_, max_ = _bin_search(current, previous, current_val,
                                                      previous_val, min_, max_)
          previous_val = current_val
          if np.abs(current_val) < 1e-5 or np.abs(max_ - min_) < 1e-30 or i == 50:
              converged = True
      return coef
  \<close>
  The loop is \<open>delta_loop\<close>; it leaves with the last candidate \<open>coef\<close> and the number
  \<open>i\<close> of iterations made. The loop tests \<open>i == 50\<close> for equality, so as a function of
  an arbitrary starting counter it need not return: it is a partial function, and that
  it returns from \<open>i = 0\<close> is proved below.
\<close>

partial_function (option) delta_loop ::
  "vec \<Rightarrow> real \<Rightarrow> bool \<Rightarrow> real \<Rightarrow> real \<Rightarrow> real option \<Rightarrow> real \<Rightarrow> real \<Rightarrow> int
     \<Rightarrow> (error + vec \<times> int) option" where
  "delta_loop w c positive current previous previous_val min_b max_b i =
     (let i = i + 1;
          coef = soft_threshold w current positive
      in case (if norm2 coef > 0 then vec_div coef (norm2 coef) else Inr coef) of
           Inl e \<Rightarrow> Some (Inl e)
         | Inr coef \<Rightarrow>
             (let current_val = c - norm1 coef
              in case bin_search current previous current_val previous_val min_b max_b of
                   Inl e \<Rightarrow> Some (Inl e)
                 | Inr (current', previous', min', max') \<Rightarrow>
                     if \<bar>current_val\<bar> < 1 / 10 ^ 5 \<or> \<bar>max' - min'\<bar> < 1 / 10 ^ 30 \<or> i = 50
                     then Some (Inr (coef, i))
                     else delta_loop w c positive current' previous' (Some current_val)
                            min' max' i))"

definition delta_search :: "vec \<Rightarrow> real \<Rightarrow> bool \<Rightarrow> real \<Rightarrow> (error + vec) option" where
  "delta_search w c positive init =
     (case vec_div w (norm2 w) of
        Inl e \<Rightarrow> Some (Inl e)
      | Inr w \<Rightarrow>
          (case delta_loop w c positive init init None 0 10 0 of
             None \<Rightarrow> None
           | Some (Inl e) \<Rightarrow> Some (Inl e)
           | Some (Inr (coef, i)) \<Rightarrow> Some (Inr coef)))"

subsection \<open>Matrices\<close>

text \<open>
  A view is the list of its rows; \<open>view.shape[0]\<close> is the number of rows and
  \<open>view.shape[1]\<close> the length of a row (the empty list stands for an array without
  entries). Outside the ADMM update, which is modelled with the shapes of its arrays
  further below, shapes are taken to agree wherever numpy would otherwise raise.
\<close>

definition nrows :: "mat \<Rightarrow> nat" where
  "nrows X = length X"

definition ncols :: "mat \<Rightarrow> nat" where
  "ncols X = (case X of [] \<Rightarrow> 0 | r # _ \<Rightarrow> length r)"

text \<open>\<open>X @ w\<close>.\<close>

definition mat_vec :: "mat \<Rightarrow> vec \<Rightarrow> vec" where
  "mat_vec X w = map (\<lambda>row. dot row w) X"

text \<open>\<open>X.T @ t\<close>.\<close>

definition matT_vec :: "mat \<Rightarrow> vec \<Rightarrow> vec" where
  "matT_vec X t = map (\<lambda>j. sum_list (map (\<lambda>(row, tj). row ! j * tj) (zip X t))) [0..<ncols X]"

definition vec_add :: "vec \<Rightarrow> vec \<Rightarrow> vec" where
  "vec_add a b = map (\<lambda>(x, y). x + y) (zip a b)"

definition vec_sub :: "vec \<Rightarrow> vec \<Rightarrow> vec" where
  "vec_sub a b = map (\<lambda>(x, y). x - y) (zip a b)"

definition vec_scale :: "real \<Rightarrow> vec \<Rightarrow> vec" where
  "vec_scale k a = map (\<lambda>x. k * x) a"

text \<open>
  The idiom of the update rules,
  \<^verbatim>\<open>
  targets = np.ma.array(self.scores, mask=False)
  targets.mask[view_index] = True
  ... targets.sum(axis=0).filled()
  \<close>
  sums the score vectors of all views but \<open>view_index\<close>, sample by sample. When no
  other view is left every entry of the sum is masked, and \<open>filled()\<close> puts the default
  fill value of a float array, \<open>1e20\<close>, there.
\<close>

definition masked_sum :: "vec list \<Rightarrow> nat \<Rightarrow> vec" where
  "masked_sum scores view_index =
     (let others = take view_index scores @ drop (Suc view_index) scores;
          n = (case scores of [] \<Rightarrow> 0 | r # _ \<Rightarrow> length r)
      in if others = [] then replicate n (10 ^ 20)
         else map (\<lambda>j. sum_list (map (\<lambda>r. r ! j) others)) [0..<n])"

text \<open>\<open>scores.mean(axis=0)\<close>: the mean over all views, sample by sample.\<close>

definition mean_axis0 :: "vec list \<Rightarrow> vec" where
  "mean_axis0 scores =
     (let n = (case scores of [] \<Rightarrow> 0 | r # _ \<Rightarrow> length r)
      in map (\<lambda>j. sum_list (map (\<lambda>r. r ! j) scores) / real (length scores)) [0..<n])"

text \<open>Python indexing of a sequence: a negative index counts from the end.\<close>

definition py_index :: "'a list \<Rightarrow> int \<Rightarrow> 'a option" where
  "py_index xs i =
     (if 0 \<le> i \<and> i < int (length xs) then Some (xs ! nat i)
      else if - int (length xs) \<le> i \<and> i < 0 then Some (xs ! nat (int (length xs) + i))
      else None)"

subsection \<open>The state of an inner loop\<close>

text \<open>
  The attributes of an \<open>_InnerLoop\<close> object and of its subclasses, \<open>self.x\<close> written
  \<open>self_x\<close>. A hyperparameter is \<open>None\<close>, a scalar or a list until \<open>check_params\<close>
  has normalised it to a list per view. \<open>self_regressors\<close> holds the fitted-coefficient
  function of each view's regression solver (an external capability), \<open>rng_draws\<close>
  counts the calls made to the random source.
\<close>

datatype 'a param = PNone | PScalar 'a | PList "'a list"

datatype initialization = Random | Uniform | Unregularized

record loop =
  self_generalized :: bool
  self_initialization :: initialization
  self_max_iter :: int
  self_tol :: real
  self_views :: "mat list"
  self_scores :: "vec list"
  self_old_scores :: "vec list"
  self_weights :: "vec list"
  self_track_objective :: "real list"
  self_c :: "real param"
  self_l1_ratio :: "real param"
  self_positive :: "bool param"
  self_gamma :: "real list"
  self_regressors :: "(mat \<Rightarrow> vec \<Rightarrow> vec) list"
  rng_draws :: nat

text \<open>The entry of a normalised hyperparameter for one view, \<open>self.c[view_index]\<close>.\<close>

definition param_at :: "'a param \<Rightarrow> nat \<Rightarrow> 'a option" where
  "param_at p i = (case p of PList xs \<Rightarrow> (if i < length xs then Some (xs ! i) else None) | _ \<Rightarrow> None)"

text \<open>
  Indexing \<open>self.views\<close>, \<open>self.scores\<close> or \<open>self.weights\<close> at a position that
  does not exist raises IndexError; \<open>has_view\<close> is the test that all three exist.
\<close>

definition has_view :: "loop \<Rightarrow> nat \<Rightarrow> bool" where
  "has_view s view_index \<longleftrightarrow>
     view_index < length (self_views s) \<and> view_index < length (self_scores s)
     \<and> view_index < length (self_weights s)"

text \<open>
  The methods a strategy class provides or overrides. Every method that can raise returns
  a sum; \<open>early_stop\<close> only compares numbers.
\<close>

record methods =
  check_params :: "loop \<Rightarrow> error + loop"
  inner_iteration :: "loop \<Rightarrow> error + loop"
  objective :: "loop \<Rightarrow> real"
  early_stop :: "loop \<Rightarrow> bool"

subsection \<open>\<open>_InnerLoop.fit\<close> and the base class\<close>

text \<open>
  \<^verbatim>\<open>
  for _ in range(self.max_iter):
      self.inner_iteration()
      self.track_objective.append(self.objective())
      if _ > 0 and self.early_stop():
          break
      self.old_scores = self.scores.copy()
  return self
  \<close>
  \<open>fit_loop m n k s\<close> runs the \<open>n\<close> remaining iterations, \<open>k\<close> being the value of the
  loop variable.
\<close>

fun fit_loop :: "methods \<Rightarrow> nat \<Rightarrow> nat \<Rightarrow> loop \<Rightarrow> error + loop" where
  "fit_loop m 0 k s = Inr s"
| "fit_loop m (Suc n) k s =
     (case inner_iteration m s of
        Inl e \<Rightarrow> Inl e
      | Inr s \<Rightarrow>
          (let s = s\<lparr>self_track_objective := self_track_objective s @ [objective m s]\<rparr>
           in if k > 0 \<and> early_stop m s then Inr s
              else fit_loop m n (Suc k) (s\<lparr>self_old_scores := self_scores s\<rparr>)))"

text \<open>
  \<^verbatim>\<open>
  def fit(self, *views: np.ndarray):
      self.views = views
      if len(self.views) > 2:
          self.generalized = True
          warnings.warn('For more than 2 views require generalized=True')
      self.check_params()
      self.initialize()
      self.track_objective = []
      for _ in range(self.max_iter): ...
      return self
  \<close>
  \<open>fit_with\<close> is this method for a given \<open>initialize\<close> (which the base class defines
  once, below, through a nested fit). It returns the warnings emitted, and the object or
  the exception raised.
\<close>

definition fit_with ::
  "(loop \<Rightarrow> string list \<times> (error + loop)) \<Rightarrow> methods \<Rightarrow> loop \<Rightarrow> mat list
     \<Rightarrow> string list \<times> (error + loop)" where
  "fit_with init m s views =
     (let s = s\<lparr>self_views := views\<rparr>;
          (s, w1) =
            (if length (self_views s) > 2
             then (s\<lparr>self_generalized := True\<rparr>,
                   [''For more than 2 views require generalized=True''])
             else (s, []))
      in case check_params m s of
           Inl e \<Rightarrow> (w1, Inl e)
         | Inr s \<Rightarrow>
             (case init s of
                (w2, Inl e) \<Rightarrow> (w1 @ w2, Inl e)
              | (w2, Inr s) \<Rightarrow>
                  (w1 @ w2,
                   fit_loop m (nat (self_max_iter s)) 0 (s\<lparr>self_track_objective := []\<rparr>))))"

text \<open>
  \<^verbatim>\<open>
  def objective(self) -> int:
      obj = 0
      for (score_i, score_j) in combinations(self.scores, 2):
          obj += score_i.T @ score_j
      return obj
  \<close>
\<close>

fun combinations2 :: "'a list \<Rightarrow> ('a \<times> 'a) list" where
  "combinations2 [] = []"
| "combinations2 (x # xs) = map (\<lambda>y. (x, y)) xs @ combinations2 xs"

definition base_objective :: "loop \<Rightarrow> real" where
  "base_objective s = sum_list (map (\<lambda>(score_i, score_j). dot score_i score_j)
                                    (combinations2 (self_scores s)))"

text \<open>
  The base class: \<open>check_params\<close> and \<open>inner_iteration\<close> are \<open>pass\<close>, \<open>early_stop\<close>
  returns \<open>False\<close>.
\<close>

definition base_methods :: methods where
  "base_methods =
     \<lparr>check_params = (\<lambda>s. Inr s), inner_iteration = (\<lambda>s. Inr s),
      objective = base_objective, early_stop = (\<lambda>s. False)\<rparr>"

subsection \<open>\<open>PLSInnerLoop\<close>\<close>

text \<open>
  \<^verbatim>\<open>
  def check_params(self):
      self.l1_ratio = [0] * len(self.views)
      self.c = [0] * len(self.views)
  \<close>
\<close>

definition pls_check_params :: "loop \<Rightarrow> error + loop" where
  "pls_check_params s =
     Inr (s\<lparr>self_l1_ratio := PList (replicate (length (self_views s)) 0),
            self_c := PList (replicate (length (self_views s)) 0)\<rparr>)"

text \<open>
  \<^verbatim>\<open>
  def update_view(self, view_index: int):
      targets = np.ma.array(self.scores, mask=False)
      targets.mask[view_index] = True
      self.weights[view_index] = self.views[view_index].T @ targets.sum(axis=0).filled()
      self.weights[view_index] /= np.linalg.norm(self.weights[view_index])
      self.scores[view_index] = self.views[view_index] @ self.weights[view_index]
  \<close>
\<close>

definition pls_update_view :: "loop \<Rightarrow> nat \<Rightarrow> error + loop" where
  "pls_update_view s view_index =
     (if \<not> has_view s view_index then Inl IndexError
      else
        (let targets = masked_sum (self_scores s) view_index;
             w = matT_vec (self_views s ! view_index) targets
         in case vec_div w (norm2 w) of
              Inl e \<Rightarrow> Inl e
            | Inr w \<Rightarrow>
                (let s = s\<lparr>self_weights := (self_weights s)[view_index := w]\<rparr>
                 in Inr (s\<lparr>self_scores := (self_scores s)
                          [view_index := mat_vec (self_views s ! view_index)
                                           (self_weights s ! view_index)]\<rparr>))))"

text \<open>
  \<^verbatim>\<open>
  def inner_iteration(self):
      for i, view in enumerate(self.views):
          self.update_view(i)
  \<close>
\<close>

fun update_views :: "(loop \<Rightarrow> nat \<Rightarrow> error + loop) \<Rightarrow> nat list \<Rightarrow> loop \<Rightarrow> error + loop" where
  "update_views update_view [] s = Inr s"
| "update_views update_view (i # rest) s =
     (case update_view s i of
        Inl e \<Rightarrow> Inl e
      | Inr s \<Rightarrow> update_views update_view rest s)"

definition pls_inner_iteration :: "(loop \<Rightarrow> nat \<Rightarrow> error + loop) \<Rightarrow> loop \<Rightarrow> error + loop" where
  "pls_inner_iteration update_view s = update_views update_view [0..<length (self_views s)] s"

text \<open>
  \<^verbatim>\<open>
  def _cosine_similarity(a, b):
      return a.T @ b / (np.linalg.norm(a) * np.linalg.norm(b))

  def early_stop(self) -> bool:
      if all(_cosine_similarity(self.scores[n], self.old_scores[n]) > (1 - self.tol)
             for n, view in enumerate(self.scores)):
          return True
      else:
          return False
  \<close>
  With a zero norm the quotient is nan and the comparison is false.
\<close>

definition cosine_similarity_gt :: "vec \<Rightarrow> vec \<Rightarrow> real \<Rightarrow> bool" where
  "cosine_similarity_gt a b bound \<longleftrightarrow>
     norm2 a * norm2 b \<noteq> 0 \<and> dot a b / (norm2 a * norm2 b) > bound"

definition pls_early_stop :: "loop \<Rightarrow> bool" where
  "pls_early_stop s \<longleftrightarrow>
     list_all (\<lambda>n. cosine_similarity_gt (self_scores s ! n) (self_old_scores s ! n)
                     (1 - self_tol s))
              [0..<length (self_scores s)]"

definition pls_methods :: methods where
  "pls_methods =
     \<lparr>check_params = pls_check_params,
      inner_iteration = pls_inner_iteration pls_update_view,
      objective = base_objective, early_stop = pls_early_stop\<rparr>"

subsection \<open>\<open>_InnerLoop.initialize\<close>\<close>

text \<open>
  \<^verbatim>\<open>
  def initialize(self):
      if self.initialization == 'random':
          self.scores = np.array([np.random.rand(view.shape[0]) for view in self.views])
      if self.initialization == 'uniform':
          self.scores = np.array([np.ones(view.shape[0]) for view in self.views])
          self.scores = self.scores / np.linalg.norm(self.scores, axis=1)[:, np.newaxis]
      elif self.initialization == 'unregularized':
          unregularized = PLSInnerLoop(initialization='random').fit(*self.views)
          norms = np.linalg.norm(unregularized.scores, axis=1)
          self.scores = unregularized.scores / norms[:, np.newaxis]
      self.weights = [np.random.rand(view.shape[1]) for view in self.views]
  \<close>
  The random source is a parameter: \<open>rand k n\<close> is the vector of length \<open>n\<close> that the
  \<open>k\<close>-th call of \<open>np.random.rand\<close> returns. Without views the array of scores has one
  axis only and \<open>norm(..., axis=1)\<close> raises AxisError.
\<close>

fun draw_all :: "(nat \<Rightarrow> nat \<Rightarrow> vec) \<Rightarrow> nat \<Rightarrow> nat list \<Rightarrow> vec list" where
  "draw_all rand k [] = []"
| "draw_all rand k (n # ns) = rand k n # draw_all rand (Suc k) ns"

fun divide_rows :: "vec list \<Rightarrow> error + vec list" where
  "divide_rows [] = Inr []"
| "divide_rows (r # rs) =
     (case vec_div r (norm2 r) of
        Inl e \<Rightarrow> Inl e
      | Inr r \<Rightarrow> (case divide_rows rs of Inl e \<Rightarrow> Inl e | Inr rs \<Rightarrow> Inr (r # rs)))"

definition draw_weights :: "(nat \<Rightarrow> nat \<Rightarrow> vec) \<Rightarrow> loop \<Rightarrow> loop" where
  "draw_weights rand s =
     s\<lparr>self_weights := draw_all rand (rng_draws s) (map ncols (self_views s)),
       rng_draws := rng_draws s + length (self_views s)\<rparr>"

definition initialize_random :: "(nat \<Rightarrow> nat \<Rightarrow> vec) \<Rightarrow> loop \<Rightarrow> loop" where
  "initialize_random rand s =
     draw_weights rand
       (s\<lparr>self_scores := draw_all rand (rng_draws s) (map nrows (self_views s)),
          rng_draws := rng_draws s + length (self_views s)\<rparr>)"

text \<open>
  \<^verbatim>\<open>
  def __init__(self, max_iter: int = 100, tol: float = 1e-5, generalized: bool = False,
               initialization: str = 'unregularized'):
      self.generalized = generalized
      self.initialization = initialization
      self.max_iter = max_iter
      self.tol = tol
  \<close>
  The attributes that are set later start empty. \<open>pls_random\<close> is
  \<open>PLSInnerLoop(initialization='random')\<close>, with the defaults of the constructor.
\<close>

definition new_loop :: "int \<Rightarrow> real \<Rightarrow> bool \<Rightarrow> initialization \<Rightarrow> loop" where
  "new_loop max_iter tol generalized initialization =
     \<lparr>self_generalized = generalized, self_initialization = initialization,
      self_max_iter = max_iter, self_tol = tol,
      self_views = [], self_scores = [], self_old_scores = [],
      self_weights = [], self_track_objective = [], self_c = PNone, self_l1_ratio = PNone,
      self_positive = PNone, self_gamma = [], self_regressors = [], rng_draws = 0\<rparr>"

definition pls_random :: "nat \<Rightarrow> loop" where
  "pls_random draws = (new_loop 100 (1 / 10 ^ 5) False Random)\<lparr>rng_draws := draws\<rparr>"

definition initialize :: "(nat \<Rightarrow> nat \<Rightarrow> vec) \<Rightarrow> loop \<Rightarrow> string list \<times> (error + loop)" where
  "initialize rand s =
     (case self_initialization s of
        Random \<Rightarrow> ([], Inr (initialize_random rand s))
      | Uniform \<Rightarrow>
          (if self_views s = [] then ([], Inl AxisError)
           else (case divide_rows (map (\<lambda>view. replicate (nrows view) 1) (self_views s)) of
                   Inl e \<Rightarrow> ([], Inl e)
                 | Inr rows \<Rightarrow> ([], Inr (draw_weights rand (s\<lparr>self_scores := rows\<rparr>)))))
      | Unregularized \<Rightarrow>
          (case fit_with (\<lambda>s. ([], Inr (initialize_random rand s))) pls_methods
                  (pls_random (rng_draws s)) (self_views s) of
             (w, Inl e) \<Rightarrow> (w, Inl e)
           | (w, Inr unregularized) \<Rightarrow>
               (if self_views s = [] then (w, Inl AxisError)
                else (case divide_rows (self_scores unregularized) of
                        Inl e \<Rightarrow> (w, Inl e)
                      | Inr rows \<Rightarrow>
                          (w, Inr (draw_weights rand
                                     (s\<lparr>self_scores := rows,
                                        rng_draws := rng_draws unregularized\<rparr>)))))))"

definition fit ::
  "(nat \<Rightarrow> nat \<Rightarrow> vec) \<Rightarrow> methods \<Rightarrow> loop \<Rightarrow> mat list \<Rightarrow> string list \<times> (error + loop)" where
  "fit rand m s views = fit_with (initialize rand) m s views"

subsection \<open>Helpers of \<open>cca_zoo/utils/check_values.py\<close>\<close>

text \<open>
  Modelled from the spec: \<open>_process_parameter\<close>, whose module is not among the sources.
  The spec's Parameter Normalizer "expands a scalar/list/None hyperparameter into a
  per-view list, validating length", with the invariant "length equals view count after
  normalization". The call sites give the argument order: name, value, default, number
  of views.
\<close>

definition process_parameter :: "string \<Rightarrow> 'a param \<Rightarrow> 'a \<Rightarrow> nat \<Rightarrow> error + 'a list" where
  "process_parameter name p default_value n_views =
     (case p of
        PNone \<Rightarrow> Inr (replicate n_views default_value)
      | PScalar x \<Rightarrow> Inr (replicate n_views x)
      | PList xs \<Rightarrow>
          if length xs = n_views then Inr xs
          else Inl (ValueError (name @ '' should have as many entries as there are views'')))"

text \<open>
  Modelled from the spec: \<open>_check_converged_weights\<close>, of the same module. The spec's
  validators "detect degenerate (all-zero / divergent) weight updates and fail fast", with
  a degeneracy error "identifying the offending view index". Over the reals only the
  all-zero case arises.
\<close>

definition check_converged_weights :: "vec \<Rightarrow> nat \<Rightarrow> error + unit" where
  "check_converged_weights w view_index =
     (if list_all (\<lambda>x. x = 0) w
      then Inl (ValueError ''All result weights are zero in this view'')
      else Inr ())"

subsection \<open>\<open>PMDInnerLoop\<close>\<close>

text \<open>
  \<^verbatim>\<open>
  def check_params(self):
      self.c = _process_parameter('c', self.c, 1, len(self.views))
      if any(c < 1 for c in self.c):
          raise ValueError("All regulariation parameters should be at least "
                           f"1. c=[{self.c}]")
      shape_sqrts = [np.sqrt(view.shape[1]) for view in self.views]
      if any(c > shape_sqrt for c, shape_sqrt in zip(self.c, shape_sqrts)):
          raise ValueError("All regulariation parameters should be less than"
                           " the square root of number of the respective"
                           f" view. c=[{self.c}], limit of each view: "
                           f"{shape_sqrts}")
      self.positive = _process_parameter('positive', self.positive, False, len(self.views))
  \<close>
  The messages are kept up to the interpolated values.
\<close>

definition pmd_check_params :: "loop \<Rightarrow> error + loop" where
  "pmd_check_params s =
     (case process_parameter ''c'' (self_c s) 1 (length (self_views s)) of
        Inl e \<Rightarrow> Inl e
      | Inr c \<Rightarrow>
          if list_ex (\<lambda>c. c < 1) c
          then Inl (ValueError ''All regulariation parameters should be at least 1.'')
          else
            (let shape_sqrts = map (\<lambda>view. sqrt (real (ncols view))) (self_views s)
             in if list_ex (\<lambda>(c, shape_sqrt). c > shape_sqrt) (zip c shape_sqrts)
                then Inl (ValueError
                  ''All regulariation parameters should be less than the square root of number of the respective view.'')
                else
                  (case process_parameter ''positive'' (self_positive s) False
                          (length (self_views s)) of
                     Inl e \<Rightarrow> Inl e
                   | Inr positive \<Rightarrow>
                       Inr (s\<lparr>self_c := PList c, self_positive := PList positive\<rparr>))))"

text \<open>
  \<^verbatim>\<open>
  def update_view(self, view_index: int):
      targets = np.ma.array(self.scores, mask=False)
      targets.mask[view_index] = True
      self.weights[view_index] = self.views[view_index].T @ targets.sum(axis=0).filled()
      self.weights[view_index] = _delta_search(self.weights[view_index], self.c[view_index],
                                               positive=self.positive[view_index])
      _check_converged_weights(self.weights[view_index], view_index)
      self.scores[view_index] = self.views[view_index] @ self.weights[view_index]
  \<close>
  \<open>delta_search\<close> is a partial function; \<open>NonTermination\<close> stands for a search that
  does not return (none exists, see \<open>delta_search_returns\<close>).
\<close>

definition pmd_update_view :: "loop \<Rightarrow> nat \<Rightarrow> error + loop" where
  "pmd_update_view s view_index =
     (case (if has_view s view_index then param_at (self_c s) view_index else None,
            param_at (self_positive s) view_index) of
        (Some c, Some positive) \<Rightarrow>
          (let targets = masked_sum (self_scores s) view_index;
               w = matT_vec (self_views s ! view_index) targets
           in case delta_search w c positive 0 of
                None \<Rightarrow> Inl NonTermination
              | Some (Inl e) \<Rightarrow> Inl e
              | Some (Inr w) \<Rightarrow>
                  (case check_converged_weights w view_index of
                     Inl e \<Rightarrow> Inl e
                   | Inr _ \<Rightarrow>
                       Inr (s\<lparr>self_weights := (self_weights s)[view_index := w],
                              self_scores := (self_scores s)
                                [view_index := mat_vec (self_views s ! view_index) w]\<rparr>)))
      | _ \<Rightarrow> Inl IndexError)"

definition pmd_methods :: methods where
  "pmd_methods =
     \<lparr>check_params = pmd_check_params,
      inner_iteration = pls_inner_iteration pmd_update_view,
      objective = base_objective, early_stop = pls_early_stop\<rparr>"

subsection \<open>\<open>ElasticInnerLoop\<close>\<close>

text \<open>
  \<^verbatim>\<open>
  def update_view(self, view_index: int):
      if self.generalized:
          target = self.scores.mean(axis=0)
      else:
          target = self.scores[view_index - 1]
      if self.constrained:
          self.elastic_solver_constrained(self.views[view_index], target, view_index)
      else:
          self.elastic_solver(self.views[view_index], target, view_index)
      _check_converged_weights(self.weights[view_index], view_index)
      self.scores[view_index] = (self.views[view_index] @ self.weights[view_index]).ravel()

  def elastic_solver(self, X, y, view_index):
      self.weights[view_index] = self.regressors[view_index].fit(X, y.ravel()).coef_
      self.weights[view_index] /= np.linalg.norm(self.views[view_index] @ self.weights[view_index])
  \<close>
  The solver that \<open>self.constrained\<close> selects is the argument \<open>solver\<close> of
  \<open>elastic_update_view\<close>; \<open>elastic_solver\<close> is the one for \<open>constrained=False\<close>.
\<close>

definition elastic_target :: "loop \<Rightarrow> nat \<Rightarrow> error + vec" where
  "elastic_target s view_index =
     (if self_generalized s then Inr (mean_axis0 (self_scores s))
      else (case py_index (self_scores s) (int view_index - 1) of
              None \<Rightarrow> Inl IndexError
            | Some target \<Rightarrow> Inr target))"

definition elastic_solver :: "loop \<Rightarrow> mat \<Rightarrow> vec \<Rightarrow> nat \<Rightarrow> error + loop" where
  "elastic_solver s X y view_index =
     (if \<not> (has_view s view_index \<and> view_index < length (self_regressors s))
      then Inl IndexError
      else
        (let s = s\<lparr>self_weights := (self_weights s)
                     [view_index := (self_regressors s ! view_index) X y]\<rparr>
         in case vec_div (self_weights s ! view_index)
                   (norm2 (mat_vec (self_views s ! view_index) (self_weights s ! view_index))) of
              Inl e \<Rightarrow> Inl e
            | Inr w \<Rightarrow> Inr (s\<lparr>self_weights := (self_weights s)[view_index := w]\<rparr>)))"

definition elastic_update_view ::
  "(loop \<Rightarrow> mat \<Rightarrow> vec \<Rightarrow> nat \<Rightarrow> error + loop) \<Rightarrow> loop \<Rightarrow> nat \<Rightarrow> error + loop" where
  "elastic_update_view solver s view_index =
     (case (if has_view s view_index then elastic_target s view_index else Inl IndexError) of
        Inl e \<Rightarrow> Inl e
      | Inr target \<Rightarrow>
          (case solver s (self_views s ! view_index) target view_index of
             Inl e \<Rightarrow> Inl e
           | Inr s \<Rightarrow>
               (case check_converged_weights (self_weights s ! view_index) view_index of
                  Inl e \<Rightarrow> Inl e
                | Inr _ \<Rightarrow>
                    Inr (s\<lparr>self_scores := (self_scores s)
                           [view_index := mat_vec (self_views s ! view_index)
                                            (self_weights s ! view_index)]\<rparr>))))"

text \<open>
  The target the specification describes for generalized mode: the mean of the score
  vectors of all views other than \<open>view_index\<close>.
\<close>

definition spec_mean_of_others :: "vec list \<Rightarrow> nat \<Rightarrow> vec" where
  "spec_mean_of_others scores view_index =
     mean_axis0 (take view_index scores @ drop (Suc view_index) scores)"

subsection \<open>Arrays with one or two axes\<close>

text \<open>
  In the ADMM update the number of axes of an array depends on the run: \<open>initialize\<close>
  creates every weight vector with one axis, \<open>check_params\<close> creates \<open>eta\<close> and
  \<open>z\<close> with two. An \<open>ndarray\<close> is a one-dimensional array, given by its entries, or a
  two-dimensional one, given by its rows. A two-dimensional array without rows has no
  number of columns in this representation, so for a view without samples or without
  features the model may name another exception than numpy does.
\<close>

datatype 'a ndarray = Arr1 "'a list" | Arr2 "'a list list"

definition width :: "'a list list \<Rightarrow> nat" where
  "width m = (case m of [] \<Rightarrow> 0 | r # _ \<Rightarrow> length r)"

definition entries :: "'a ndarray \<Rightarrow> 'a list" where
  "entries a = (case a of Arr1 v \<Rightarrow> v | Arr2 m \<Rightarrow> concat m)"

text \<open>An operation with a scalar, entry by entry: \<open>mu * c\<close>, \<open>a > t\<close>, \<open>~mask\<close>.\<close>

definition nd_map :: "('a \<Rightarrow> 'b) \<Rightarrow> 'a ndarray \<Rightarrow> 'b ndarray" where
  "nd_map f a = (case a of Arr1 v \<Rightarrow> Arr1 (map f v) | Arr2 m \<Rightarrow> Arr2 (map (map f) m))"

text \<open>
  \<open>np.linalg.norm(a)\<close> is the root of the sum of all squared entries, whatever the
  number of axes. \<open>np.linalg.norm(a, 1)\<close> is the sum of absolute values of a
  one-dimensional array and the largest absolute column sum of a two-dimensional one,
  where the maximum over no column raises ValueError.
\<close>

definition nd_norm :: "real ndarray \<Rightarrow> real" where
  "nd_norm a = norm2 (entries a)"

definition nd_norm1 :: "real ndarray \<Rightarrow> error + real" where
  "nd_norm1 a =
     (case a of
        Arr1 v \<Rightarrow> Inr (norm1 v)
      | Arr2 m \<Rightarrow>
          (case map (\<lambda>j. sum_list (map (\<lambda>row. \<bar>row ! j\<bar>) m)) [0..<width m] of
             [] \<Rightarrow> Inl (ValueError ''zero-size array to reduction operation maximum which has no identity'')
           | m # rest \<Rightarrow> Inr (fold max rest m)))"

text \<open>
  Sequencing of steps that can raise, and indexing of a Python list at a position that
  may not exist.
\<close>

definition and_then :: "error + 'a \<Rightarrow> ('a \<Rightarrow> error + 'b) \<Rightarrow> error + 'b" where
  "and_then r f = (case r of Inl e \<Rightarrow> Inl e | Inr v \<Rightarrow> f v)"

definition item :: "'a list \<Rightarrow> nat \<Rightarrow> error + 'a" where
  "item xs i = (if i < length xs then Inr (xs ! i) else Inl IndexError)"

text \<open>
  Broadcasting of a binary operation. Two lengths are compatible when they are equal or
  one of them is 1; the axis of length 1 is then repeated. A one-dimensional array of
  length \<open>n\<close> combined with a two-dimensional one counts as a single row, of shape
  \<open>(1, n)\<close>, and the result is two-dimensional. Incompatible shapes raise ValueError.
\<close>

definition compatible :: "nat \<Rightarrow> nat \<Rightarrow> bool" where
  "compatible m n \<longleftrightarrow> m = n \<or> m = 1 \<or> n = 1"

definition bdim :: "nat \<Rightarrow> nat \<Rightarrow> nat" where
  "bdim m n = (if m = 1 then n else m)"

definition pick :: "'a list \<Rightarrow> nat \<Rightarrow> 'a" where
  "pick xs i = (if length xs = 1 then xs ! 0 else xs ! i)"

definition broadcast1 :: "('a \<Rightarrow> 'b \<Rightarrow> 'c) \<Rightarrow> 'a list \<Rightarrow> 'b list \<Rightarrow> error + 'c list" where
  "broadcast1 f u v =
     (if compatible (length u) (length v)
      then Inr (map (\<lambda>j. f (pick u j) (pick v j)) [0..<bdim (length u) (length v)])
      else Inl (ValueError ''operands could not be broadcast together''))"

definition broadcast2 ::
  "('a \<Rightarrow> 'b \<Rightarrow> 'c) \<Rightarrow> 'a list list \<Rightarrow> 'b list list \<Rightarrow> error + 'c list list" where
  "broadcast2 f A B =
     (if compatible (length A) (length B) \<and> compatible (width A) (width B)
      then Inr (map (\<lambda>i. map (\<lambda>j. f (pick (pick A i) j) (pick (pick B i) j))
                             [0..<bdim (width A) (width B)])
                    [0..<bdim (length A) (length B)])
      else Inl (ValueError ''operands could not be broadcast together''))"

definition broadcast ::
  "('a \<Rightarrow> 'b \<Rightarrow> 'c) \<Rightarrow> 'a ndarray \<Rightarrow> 'b ndarray \<Rightarrow> error + 'c ndarray" where
  "broadcast f a b =
     (case (a, b) of
        (Arr1 u, Arr1 v) \<Rightarrow> and_then (broadcast1 f u v) (\<lambda>r. Inr (Arr1 r))
      | (Arr1 u, Arr2 B) \<Rightarrow> and_then (broadcast2 f [u] B) (\<lambda>r. Inr (Arr2 r))
      | (Arr2 A, Arr1 v) \<Rightarrow> and_then (broadcast2 f A [v]) (\<lambda>r. Inr (Arr2 r))
      | (Arr2 A, Arr2 B) \<Rightarrow> and_then (broadcast2 f A B) (\<lambda>r. Inr (Arr2 r)))"

text \<open>
  \<open>A @ b\<close> for a two-dimensional \<open>A\<close>: with a one-dimensional \<open>b\<close> the result has one
  axis, with a two-dimensional \<open>b\<close> it has two. The number of columns of \<open>A\<close> must be
  the length, or the number of rows, of \<open>b\<close>. \<open>transposed X\<close> is \<open>X.T\<close>.
\<close>

definition transposed :: "mat \<Rightarrow> mat" where
  "transposed X = map (\<lambda>j. map (\<lambda>row. row ! j) X) [0..<ncols X]"

definition matmul :: "mat \<Rightarrow> real ndarray \<Rightarrow> error + real ndarray" where
  "matmul A b =
     (case b of
        Arr1 v \<Rightarrow>
          if ncols A = length v then Inr (Arr1 (mat_vec A v))
          else Inl (ValueError ''matmul: mismatch in its core dimension'')
      | Arr2 B \<Rightarrow>
          if ncols A = length B
          then Inr (Arr2 (map (\<lambda>row. map (\<lambda>k. sum_list (map (\<lambda>(a, r). a * r ! k) (zip row B)))
                                          [0..<width B]) A))
          else Inl (ValueError ''matmul: mismatch in its core dimension''))"

text \<open>
  Indexing with a boolean mask, \<open>a[mask]\<close>. A mask with as many axes as the array must
  have its shape and selects entries, in row-major order, into a one-dimensional array. A
  one-dimensional mask on a two-dimensional array selects rows. A mask with more axes
  than the array raises IndexError (too many indices for array), as does a mask of
  another shape.
\<close>

definition select :: "'a list \<Rightarrow> bool list \<Rightarrow> 'a list" where
  "select xs msk = map fst (filter snd (zip xs msk))"

definition getitem_mask :: "'a ndarray \<Rightarrow> bool ndarray \<Rightarrow> error + 'a ndarray" where
  "getitem_mask a msk =
     (case (a, msk) of
        (Arr1 v, Arr1 m) \<Rightarrow>
          if length m = length v then Inr (Arr1 (select v m)) else Inl IndexError
      | (Arr2 A, Arr2 M) \<Rightarrow>
          if map length M = map length A then Inr (Arr1 (select (concat A) (concat M)))
          else Inl IndexError
      | (Arr2 A, Arr1 m) \<Rightarrow>
          if length m = length A then Inr (Arr2 (select A m)) else Inl IndexError
      | (Arr1 v, Arr2 M) \<Rightarrow> Inl IndexError)"

text \<open>
  Assignment through a boolean mask, \<open>a[mask] = value\<close>. \<open>assign xs msk vals\<close> puts
  the values, in order, at the selected positions; \<open>unflatten\<close> cuts a list of entries
  back into rows of the given lengths. With a mask of the shape of the array the value
  must be one-dimensional, with one entry per selected position or with a single entry;
  any other value raises ValueError. With a one-dimensional mask on a two-dimensional
  array the value is broadcast to the selected rows.
\<close>

fun assign :: "'a list \<Rightarrow> bool list \<Rightarrow> 'a list \<Rightarrow> 'a list" where
  "assign (x # xs) (b # bs) (v # vs) = (if b then v # assign xs bs vs else x # assign xs bs (v # vs))"
| "assign xs bs vs = xs"

fun unflatten :: "nat list \<Rightarrow> 'a list \<Rightarrow> 'a list list" where
  "unflatten [] xs = []"
| "unflatten (n # ns) xs = take n xs # unflatten ns (drop n xs)"

definition count_true :: "bool list \<Rightarrow> nat" where
  "count_true msk = length (filter (\<lambda>b. b) msk)"

definition mask_values :: "'a ndarray \<Rightarrow> nat \<Rightarrow> error + 'a list" where
  "mask_values val k =
     (case val of
        Arr1 vals \<Rightarrow>
          if length vals = k then Inr vals
          else if length vals = 1 then Inr (replicate k (vals ! 0))
          else Inl (ValueError ''NumPy boolean array indexing assignment cannot assign the input values to the output values where the mask is true'')
      | Arr2 V \<Rightarrow>
          Inl (ValueError ''NumPy boolean array indexing assignment requires a 0 or 1-dimensional input''))"

definition row_values :: "'a ndarray \<Rightarrow> nat \<Rightarrow> nat \<Rightarrow> error + 'a list list" where
  "row_values val k n =
     (let V = (case val of Arr1 vals \<Rightarrow> [vals] | Arr2 V \<Rightarrow> V)
      in if (length V = k \<or> length V = 1) \<and> (width V = n \<or> width V = 1)
         then Inr (map (\<lambda>i. map (\<lambda>j. pick (pick V i) j) [0..<n]) [0..<k])
         else Inl (ValueError ''shape mismatch: value array could not be broadcast to indexing result''))"

definition setitem_mask :: "'a ndarray \<Rightarrow> bool ndarray \<Rightarrow> 'a ndarray \<Rightarrow> error + 'a ndarray" where
  "setitem_mask a msk val =
     (case (a, msk) of
        (Arr1 v, Arr1 m) \<Rightarrow>
          if length m = length v
          then and_then (mask_values val (count_true m)) (\<lambda>vals. Inr (Arr1 (assign v m vals)))
          else Inl IndexError
      | (Arr2 A, Arr2 M) \<Rightarrow>
          if map length M = map length A
          then and_then (mask_values val (count_true (concat M)))
                 (\<lambda>vals. Inr (Arr2 (unflatten (map length A) (assign (concat A) (concat M) vals))))
          else Inl IndexError
      | (Arr2 A, Arr1 m) \<Rightarrow>
          if length m = length A
          then and_then (row_values val (count_true m) (width A))
                 (\<lambda>rows. Inr (Arr2 (assign A m rows)))
          else Inl IndexError
      | (Arr1 v, Arr2 M) \<Rightarrow> Inl IndexError)"

text \<open>\<open>a[mask] = 0\<close>: the same with a scalar, which every selected entry receives.\<close>

definition setitem_mask_scalar :: "'a ndarray \<Rightarrow> bool ndarray \<Rightarrow> 'a \<Rightarrow> error + 'a ndarray" where
  "setitem_mask_scalar a msk x =
     (case (a, msk) of
        (Arr1 v, Arr1 m) \<Rightarrow>
          if length m = length v
          then Inr (Arr1 (map (\<lambda>(a, b). if b then x else a) (zip v m)))
          else Inl IndexError
      | (Arr2 A, Arr2 M) \<Rightarrow>
          if map length M = map length A
          then Inr (Arr2 (map (\<lambda>(row, mrow). map (\<lambda>(a, b). if b then x else a) (zip row mrow))
                              (zip A M)))
          else Inl IndexError
      | (Arr2 A, Arr1 m) \<Rightarrow>
          if length m = length A
          then Inr (Arr2 (map (\<lambda>(row, b). if b then map (\<lambda>a. x) row else row) (zip A m)))
          else Inl IndexError
      | (Arr1 v, Arr2 M) \<Rightarrow> Inl IndexError)"

subsection \<open>\<open>ADMMInnerLoop.prox_mu_f\<close>\<close>

text \<open>
  \<^verbatim>\<open>
  def prox_mu_f(self, x, mu, c, tau):
      u_update = x.copy()
      mask_1 = (x + (mu * c) > mu * tau)
      u_update[mask_1] = x[mask_1] + mu * (c[mask_1] - tau)
      mask_2 = (x + (mu * c) < - mu * tau)
      u_update[mask_2] = x[mask_2] + mu * (c[mask_2] + tau)
      mask_3 = ~(mask_1 | mask_2)
      u_update[mask_3] = 0
      return u_update
  \<close>
  The argument \<open>c\<close> is the gradient, a one-dimensional array; \<open>x\<close> has the axes that
  the caller's arithmetic gave it. In an assignment the right-hand side is evaluated
  first, from left to right: \<open>x[mask_1]\<close>, then \<open>c[mask_1]\<close>.
\<close>

definition prox_mu_f :: "real ndarray \<Rightarrow> real \<Rightarrow> vec \<Rightarrow> real \<Rightarrow> error + real ndarray" where
  "prox_mu_f x mu c tau =
     (let u_update = x
      in and_then (broadcast (\<lambda>a b. a + b) x (Arr1 (map (\<lambda>g. mu * g) c))) (\<lambda>shifted.
         let mask_1 = nd_map (\<lambda>a. a > mu * tau) shifted
         in and_then (getitem_mask x mask_1) (\<lambda>x_1.
            and_then (getitem_mask (Arr1 c) mask_1) (\<lambda>c_1.
            and_then (broadcast (\<lambda>a b. a + b) x_1 (nd_map (\<lambda>g. mu * (g - tau)) c_1)) (\<lambda>value_1.
            and_then (setitem_mask u_update mask_1 value_1) (\<lambda>u_update.
            and_then (broadcast (\<lambda>a b. a + b) x (Arr1 (map (\<lambda>g. mu * g) c))) (\<lambda>shifted.
            let mask_2 = nd_map (\<lambda>a. a < - mu * tau) shifted
            in and_then (getitem_mask x mask_2) (\<lambda>x_2.
               and_then (getitem_mask (Arr1 c) mask_2) (\<lambda>c_2.
               and_then (broadcast (\<lambda>a b. a + b) x_2 (nd_map (\<lambda>g. mu * (g + tau)) c_2)) (\<lambda>value_2.
               and_then (setitem_mask u_update mask_2 value_2) (\<lambda>u_update.
               and_then (broadcast (\<lambda>a b. a \<or> b) mask_1 mask_2) (\<lambda>either.
               let mask_3 = nd_map (\<lambda>b. \<not> b) either
               in setitem_mask_scalar u_update mask_3 0))))))))))))"

subsection \<open>\<open>ADMMInnerLoop\<close>\<close>

text \<open>
  The attributes of an \<open>ADMMInnerLoop\<close> object that its methods read or write. The
  constructor argument \<open>eta\<close> and the arrays that \<open>check_params\<close> later stores under
  the same name are two fields, \<open>admm_eta_param\<close> and \<open>admm_eta\<close>. \<open>admm_stdout\<close>
  collects what is printed.
\<close>

record admm =
  admm_max_iter :: int
  admm_views :: "mat list"
  admm_scores :: "vec list"
  admm_weights :: "real ndarray list"
  admm_c :: "real param"
  admm_lam :: "real param"
  admm_mu :: "real param"
  admm_eta_param :: "real param"
  admm_eta :: "real ndarray list"
  admm_z :: "real ndarray list"
  admm_l1_ratio :: "real param"
  admm_stdout :: "string list"

text \<open>
  \<^verbatim>\<open>
  def check_params(self):
      self.c = _process_parameter('c', self.c, 0, len(self.views))
      self.lam = _process_parameter('lam', self.lam, 1, len(self.views))
      if self.mu is None:
          self.mu = [lam / np.linalg.norm(view) ** 2 for lam, view in zip(self.lam, self.views)]
      else:
          self.mu = _process_parameter('mu', self.mu, 0, len(self.views))
      self.eta = _process_parameter('eta', self.eta, 0, len(self.views))

      if any(mu <= 0 for mu in self.mu):
          raise ValueError("At least one mu is less than zero.")

      _check_Parikh2014(self.mu, self.lam, self.views)

      self.eta = [np.ones((view.shape[0], 1)) * eta for view, eta in zip(self.views, self.eta)]
      self.z = [np.zeros((view.shape[0], 1)) for view in self.views]
      self.l1_ratio = [1] * len(self.views)
  \<close>
  \<open>_check_Parikh2014\<close> belongs to a module that is not among the sources; it is the
  argument \<open>check_Parikh2014\<close>, of which nothing is assumed. The last three lines give
  every \<open>eta\<close> and every \<open>z\<close> the shape \<open>(N, 1)\<close>: two axes, one column. The norm of
  a view is taken over all its entries; dividing by a zero norm is a division by zero.
\<close>

definition default_mu :: "real list \<Rightarrow> mat list \<Rightarrow> error + real list" where
  "default_mu lam views =
     (if list_ex (\<lambda>(lam, view). norm2 (concat view) = 0) (zip lam views) then Inl NonFinite
      else Inr (map (\<lambda>(lam, view). lam / norm2 (concat view) ^ 2) (zip lam views)))"

definition admm_check_params ::
  "(real list \<Rightarrow> real list \<Rightarrow> mat list \<Rightarrow> error + unit) \<Rightarrow> admm \<Rightarrow> error + admm" where
  "admm_check_params check_Parikh2014 s =
     and_then (process_parameter ''c'' (admm_c s) 0 (length (admm_views s))) (\<lambda>c.
     and_then (process_parameter ''lam'' (admm_lam s) 1 (length (admm_views s))) (\<lambda>lam.
     and_then (if admm_mu s = PNone then default_mu lam (admm_views s)
               else process_parameter ''mu'' (admm_mu s) 0 (length (admm_views s))) (\<lambda>mu.
     and_then (process_parameter ''eta'' (admm_eta_param s) 0 (length (admm_views s))) (\<lambda>eta.
     if list_ex (\<lambda>mu. mu \<le> 0) mu then Inl (ValueError ''At least one mu is less than zero.'')
     else
       and_then (check_Parikh2014 mu lam (admm_views s)) (\<lambda>_.
       Inr (s\<lparr>admm_c := PList c, admm_lam := PList lam, admm_mu := PList mu,
              admm_eta := map (\<lambda>(view, eta). Arr2 (replicate (nrows view) [1 * eta]))
                              (zip (admm_views s) eta),
              admm_z := map (\<lambda>view. Arr2 (replicate (nrows view) [0])) (admm_views s),
              admm_l1_ratio := PList (replicate (length (admm_views s)) 1)\<rparr>))))))"

text \<open>
  \<^verbatim>\<open>
  def prox_lam_g(self, x):
      norm = np.linalg.norm(x)
      if norm < 1:
          return x
      else:
          return x / max(1, norm)
  \<close>
  The same method as \<open>prox_lam_g\<close> above, for an argument with one or two axes.
\<close>

definition prox_lam_g_nd :: "real ndarray \<Rightarrow> real ndarray" where
  "prox_lam_g_nd x =
     (let norm = nd_norm x
      in if norm < 1 then x else nd_map (\<lambda>a. a / max 1 norm) x)"

text \<open>
  \<^verbatim>\<open>
  def update_view(self, view_index: int):
      targets = np.ma.array(self.scores, mask=False)
      targets.mask[view_index] = True
      gradient = self.views[view_index].T @ targets.sum(axis=0).filled()
      mu = self.mu[view_index]
      lam = self.lam[view_index]
      N = self.views[view_index].shape[0]
      unnorm_z = []
      norm_eta = []
      norm_weights = []
      norm_proj = []
      for _ in range(self.max_iter):
          self.weights[view_index] = self.prox_mu_f(
              self.weights[view_index] - mu / lam * self.views[view_index].T @ (
                  self.views[view_index] @ self.weights[view_index]
                  - self.z[view_index] + self.eta[view_index]),
              mu, gradient, N * self.c[view_index])
          unnorm_z.append(np.linalg.norm(
              self.views[view_index] @ self.weights[view_index] + self.eta[view_index]))
          self.z[view_index] = self.prox_lam_g(
              self.views[view_index] @ self.weights[view_index] + self.eta[view_index])
          self.eta[view_index] = (self.eta[view_index]
              + self.views[view_index] @ self.weights[view_index] - self.z[view_index])
          if np.linalg.norm(self.eta[view_index]) < 0.00000001:
              print('here')
          norm_eta.append(np.linalg.norm(self.eta[view_index]))
          norm_proj.append(np.linalg.norm(self.views[view_index] @ self.weights[view_index]))
          norm_weights.append(np.linalg.norm(self.weights[view_index], 1))
      _check_converged_weights(self.weights, view_index)
      self.scores[view_index] = self.views[view_index] @ self.weights[view_index]
  \<close>
  \<open>admm_body\<close> is one pass of the loop, on the object and the four local lists. The
  operators \<open>*\<close>, \<open>/\<close> and \<open>@\<close> bind equally and associate to the left, so the
  product in the first statement is \<open>((mu / lam) * X.T) @ (...)\<close>. \<open>mu / lam\<close> with
  \<open>lam = 0\<close> is a division by zero. In the first pass \<open>X @ weights\<close> has shape \<open>(N,)\<close>
  and \<open>z\<close> has shape \<open>(N, 1)\<close>, so their difference has shape \<open>(N, N)\<close> and the
  argument of \<open>prox_mu_f\<close> has two axes.
\<close>

record admm_trace =
  unnorm_z :: "real list"
  norm_eta :: "real list"
  norm_weights :: "real list"
  norm_proj :: "real list"

definition admm_body ::
  "nat \<Rightarrow> real \<Rightarrow> real \<Rightarrow> vec \<Rightarrow> real \<Rightarrow> admm \<times> admm_trace \<Rightarrow> error + admm \<times> admm_trace" where
  "admm_body view_index mu lam gradient N st =
     (let (s, t) = st;
          X = admm_views s ! view_index
      in and_then (item (admm_weights s) view_index) (\<lambda>w.
         if lam = 0 then Inl NonFinite
         else
           and_then (matmul X w) (\<lambda>Xw.
           and_then (item (admm_z s) view_index) (\<lambda>z.
           and_then (broadcast (\<lambda>a b. a - b) Xw z) (\<lambda>d.
           and_then (item (admm_eta s) view_index) (\<lambda>eta.
           and_then (broadcast (\<lambda>a b. a + b) d eta) (\<lambda>d.
           and_then (matmul (map (map (\<lambda>a. mu / lam * a)) (transposed X)) d) (\<lambda>step.
           and_then (broadcast (\<lambda>a b. a - b) w step) (\<lambda>x.
           and_then (case param_at (admm_c s) view_index of
                       None \<Rightarrow> Inl IndexError | Some c \<Rightarrow> Inr c) (\<lambda>c.
           and_then (prox_mu_f x mu gradient (N * c)) (\<lambda>w.
           let s = s\<lparr>admm_weights := (admm_weights s)[view_index := w]\<rparr>
           in and_then (matmul X w) (\<lambda>Xw.
              and_then (broadcast (\<lambda>a b. a + b) Xw eta) (\<lambda>a.
              let t = t\<lparr>unnorm_z := unnorm_z t @ [nd_norm a]\<rparr>;
                  s = s\<lparr>admm_z := (admm_z s)[view_index := prox_lam_g_nd a]\<rparr>
              in and_then (broadcast (\<lambda>a b. a + b) eta Xw) (\<lambda>a.
                 and_then (broadcast (\<lambda>a b. a - b) a (admm_z s ! view_index)) (\<lambda>eta.
                 let s = s\<lparr>admm_eta := (admm_eta s)[view_index := eta]\<rparr>;
                     s = (if nd_norm eta < 1 / 10 ^ 8
                          then s\<lparr>admm_stdout := admm_stdout s @ [''here'']\<rparr> else s);
                     t = t\<lparr>norm_eta := norm_eta t @ [nd_norm eta]\<rparr>;
                     t = t\<lparr>norm_proj := norm_proj t @ [nd_norm Xw]\<rparr>
                 in and_then (nd_norm1 w) (\<lambda>n1.
                    Inr (s, t\<lparr>norm_weights := norm_weights t @ [n1]\<rparr>)))))))))))))))))"

fun admm_loop ::
  "nat \<Rightarrow> nat \<Rightarrow> real \<Rightarrow> real \<Rightarrow> vec \<Rightarrow> real \<Rightarrow> admm \<times> admm_trace \<Rightarrow> error + admm \<times> admm_trace" where
  "admm_loop 0 view_index mu lam gradient N st = Inr st"
| "admm_loop (Suc n) view_index mu lam gradient N st =
     (case admm_body view_index mu lam gradient N st of
        Inl e \<Rightarrow> Inl e
      | Inr st \<Rightarrow> admm_loop n view_index mu lam gradient N st)"

text \<open>
  The row \<open>self.scores[view_index]\<close> of the array of scores has one axis; a value
  assigned to it must have its length or length 1, after leading axes of length 1 are
  dropped. The final check receives the whole list \<open>self.weights\<close>; it is modelled
  from the spec as the check of all its entries.
\<close>

definition set_row :: "vec list \<Rightarrow> nat \<Rightarrow> real ndarray \<Rightarrow> error + vec list" where
  "set_row scores view_index val =
     (let n = length (scores ! view_index);
          v = (case val of Arr1 v \<Rightarrow> Some v | Arr2 V \<Rightarrow> (case V of [v] \<Rightarrow> Some v | _ \<Rightarrow> None))
      in case v of
           None \<Rightarrow> Inl (ValueError ''could not broadcast input array'')
         | Some v \<Rightarrow>
             if length v = n then Inr (scores[view_index := v])
             else if length v = 1 then Inr (scores[view_index := replicate n (v ! 0)])
             else Inl (ValueError ''could not broadcast input array''))"

definition admm_update_view :: "admm \<Rightarrow> nat \<Rightarrow> error + admm" where
  "admm_update_view s view_index =
     (if \<not> (view_index < length (admm_scores s) \<and> view_index < length (admm_views s))
      then Inl IndexError
      else
        (let targets = masked_sum (admm_scores s) view_index;
             gradient = matT_vec (admm_views s ! view_index) targets
         in case (param_at (admm_mu s) view_index, param_at (admm_lam s) view_index) of
              (Some mu, Some lam) \<Rightarrow>
                (let N = real (nrows (admm_views s ! view_index));
                     t = \<lparr>unnorm_z = [], norm_eta = [], norm_weights = [], norm_proj = []\<rparr>
                 in and_then (admm_loop (nat (admm_max_iter s)) view_index mu lam gradient N (s, t))
                      (\<lambda>(s, t).
                      and_then (check_converged_weights (concat (map entries (admm_weights s)))
                                  view_index) (\<lambda>_.
                      and_then (item (admm_weights s) view_index) (\<lambda>w.
                      and_then (matmul (admm_views s ! view_index) w) (\<lambda>Xw.
                      and_then (set_row (admm_scores s) view_index Xw) (\<lambda>scores.
                      Inr (s\<lparr>admm_scores := scores\<rparr>)))))))
            | _ \<Rightarrow> Inl IndexError))"

text \<open>
  \<open>inner_iteration\<close> is inherited from \<open>PLSInnerLoop\<close>: the views are updated in the
  order of their index.
\<close>

fun admm_update_views :: "nat list \<Rightarrow> admm \<Rightarrow> error + admm" where
  "admm_update_views [] s = Inr s"
| "admm_update_views (i # rest) s =
     (case admm_update_view s i of
        Inl e \<Rightarrow> Inl e
      | Inr s \<Rightarrow> admm_update_views rest s)"

definition admm_inner_iteration :: "admm \<Rightarrow> error + admm" where
  "admm_inner_iteration s = admm_update_views [0..<length (admm_views s)] s"

text \<open>
  The object \<open>ADMMInnerLoop(max_iter=2)\<close> for the two views \<open>[[2.0]]\<close>, after
  \<open>check_params\<close> (\<open>c = 0\<close>, \<open>lam = 1\<close>, \<open>mu = lam / norm(view)**2\<close>, \<open>eta\<close> and \<open>z\<close>
  of shape \<open>(1, 1)\<close>) and after an initialisation that drew one half everywhere.
  \<open>admm_example_args\<close> is the object before \<open>check_params\<close>, and \<open>no_trace\<close> the four
  empty lists.
\<close>

definition admm_example_args :: admm where
  "admm_example_args =
     \<lparr>admm_max_iter = 2, admm_views = [[[2]], [[2]]], admm_scores = [], admm_weights = [],
      admm_c = PNone, admm_lam = PNone, admm_mu = PNone, admm_eta_param = PNone,
      admm_eta = [], admm_z = [], admm_l1_ratio = PNone, admm_stdout = []\<rparr>"

definition admm_example :: admm where
  "admm_example =
     admm_example_args
       \<lparr>admm_scores := [[1 / 2], [1 / 2]], admm_weights := [Arr1 [1 / 2], Arr1 [1 / 2]],
        admm_c := PList [0, 0], admm_lam := PList [1, 1], admm_mu := PList [1 / 4, 1 / 4],
        admm_eta := [Arr2 [[0]], Arr2 [[0]]], admm_z := [Arr2 [[0]], Arr2 [[0]]],
        admm_l1_ratio := PList [1, 1]\<rparr>"

definition no_trace :: admm_trace where
  "no_trace = \<lparr>unnorm_z = [], norm_eta = [], norm_weights = [], norm_proj = []\<rparr>"

subsection \<open>Notions used in the proofs about \<open>_delta_search\<close>\<close>

text \<open>
  \<open>candidate w d\<close> is the vector \<open>coef\<close> that one pass of the loop computes at the
  threshold \<open>d\<close>: \<open>w\<close> soft-thresholded at \<open>d\<close> and divided by its norm when that
  is positive. \<open>gap w c d\<close> is \<open>current_val\<close> there, and \<open>next_current\<close>,
  \<open>next_min\<close>, \<open>next_max\<close> are the three values that \<open>_bin_search\<close> changes.
  \<open>stops\<close> is the loop's exit test.
\<close>

definition candidate :: "vec \<Rightarrow> real \<Rightarrow> vec" where
  "candidate w d =
     (let coef = soft_threshold w d False
      in if norm2 coef > 0 then map (\<lambda>x. x / norm2 coef) coef else coef)"

definition gap :: "vec \<Rightarrow> real \<Rightarrow> real \<Rightarrow> real" where
  "gap w c d = c - norm1 (candidate w d)"

definition next_current :: "real \<Rightarrow> real option \<Rightarrow> real \<Rightarrow> real \<Rightarrow> real \<Rightarrow> real \<Rightarrow> real" where
  "next_current v pv cur prev mn mx =
     (if v \<le> 0
      then (if (case pv of None \<Rightarrow> v | Some u \<Rightarrow> u) \<le> 0 then (cur + mx) / 2 else (cur + prev) / 2)
      else (if (case pv of None \<Rightarrow> v | Some u \<Rightarrow> u) > 0 then (cur + mn) / 2 else (cur + prev) / 2))"

definition next_min :: "real \<Rightarrow> real \<Rightarrow> real \<Rightarrow> real" where
  "next_min v cur mn = (if v \<le> 0 \<and> cur > mn then cur else mn)"

definition next_max :: "real \<Rightarrow> real \<Rightarrow> real \<Rightarrow> real" where
  "next_max v cur mx = (if v > 0 \<and> cur < mx then cur else mx)"

definition stops :: "real \<Rightarrow> real \<Rightarrow> real \<Rightarrow> real \<Rightarrow> int \<Rightarrow> bool" where
  "stops v cur mn mx i \<longleftrightarrow>
     \<bar>v\<bar> < 1 / 10 ^ 5 \<or> \<bar>next_max v cur mx - next_min v cur mn\<bar> < 1 / 10 ^ 30 \<or> i + 1 = 50"

subsection \<open>Notions used in the statements about \<open>fit\<close>\<close>

text \<open>
  \<open>half\<close> is a random source that always returns one half, for the worked examples.
  \<open>more_than_2_warning\<close> is the list of warnings that \<open>fit\<close> itself emits.
\<close>

definition half :: "nat \<Rightarrow> nat \<Rightarrow> vec" where
  "half k n = replicate n (1 / 2)"

definition more_than_2_warning :: "mat list \<Rightarrow> string list" where
  "more_than_2_warning views =
     (if length views > 2 then [''For more than 2 views require generalized=True''] else [])"

subsection \<open>Notions used in the statements about the update rules\<close>

text \<open>
  \<open>first_len\<close> is the number of samples of an array of scores. \<open>two_views\<close> is an
  object with two views \<open>[[2.0]]\<close> after a random initialisation that drew one half
  everywhere, with \<open>c = 0\<close> and regression solvers that return the least-squares
  coefficient of the target one half.
\<close>

definition first_len :: "vec list \<Rightarrow> nat" where
  "first_len scores = (case scores of [] \<Rightarrow> 0 | r # _ \<Rightarrow> length r)"

definition two_views :: loop where
  "two_views =
     (new_loop 2 (1 / 10 ^ 5) False Random)
       \<lparr>self_views := [[[2]], [[2]]], self_scores := [[1 / 2], [1 / 2]],
        self_weights := [[1 / 2], [1 / 2]], self_c := PList [0, 0],
        self_regressors := [\<lambda>X y. [1 / 4], \<lambda>X y. [1 / 4]]\<rparr>"

subsection \<open>Notions used in the proof of monotonicity of \<open>_delta_search\<close>\<close>

text \<open>
  \<open>bracket lo hi\<close> is the invariant of the search: the current threshold lies between
  \<open>min_\<close> and \<open>max_\<close>, these lie between \<open>lo\<close> and \<open>hi\<close>, and the previous
  threshold is the end of the bracket on the side of its value. \<open>same_side\<close> relates
  the previous values of two runs that took the same branches.
\<close>

definition bracket ::
  "real \<Rightarrow> real \<Rightarrow> real \<Rightarrow> real \<Rightarrow> real option \<Rightarrow> real \<Rightarrow> real \<Rightarrow> bool" where
  "bracket lo hi cur prev pv mn mx \<longleftrightarrow>
     lo \<le> mn \<and> mn \<le> cur \<and> cur \<le> mx \<and> mx \<le> hi
     \<and> (case pv of None \<Rightarrow> True | Some v \<Rightarrow> prev = (if v \<le> 0 then mn else mx))"

definition same_side :: "real option \<Rightarrow> real option \<Rightarrow> bool" where
  "same_side pv1 pv2 \<longleftrightarrow>
     (case (pv1, pv2) of
        (None, None) \<Rightarrow> True
      | (Some a, Some b) \<Rightarrow> (a \<le> 0) = (b \<le> 0)
      | _ \<Rightarrow> False)"

section \<open>Properties\<close>

subsection \<open>Norms\<close>

lemma sum_squares_nonneg: "0 \<le> sum_list (map (\<lambda>x. x * x) (v :: vec))"
  by (induction v) auto

lemma norm2_nonneg: "0 \<le> norm2 v"
  by (simp add: norm2_def sum_squares_nonneg)

lemma sum_squares_zero_iff:
  "sum_list (map (\<lambda>x. x * x) (v :: vec)) = 0 \<longleftrightarrow> (\<forall>x \<in> set v. x = 0)"
proof (induction v)
  case Nil
  then show ?case by simp
next
  case (Cons a v)
  have "a * a + sum_list (map (\<lambda>x. x * x) v) = 0 \<longleftrightarrow>
          a * a = 0 \<and> sum_list (map (\<lambda>x. x * x) v) = 0"
    using sum_squares_nonneg [of v] by (intro add_nonneg_eq_0_iff) auto
  with Cons show ?case by simp
qed

lemma norm2_zero_iff: "norm2 v = 0 \<longleftrightarrow> (\<forall>x \<in> set v. x = 0)"
  by (simp add: norm2_def sum_squares_zero_iff)

lemma sum_squares_scale:
  "sum_list (map (\<lambda>x. x * x / (d * d)) (v :: vec))
     = sum_list (map (\<lambda>x. x * x) v) / (d * d)"
  by (induction v) (auto simp: add_divide_distrib)

lemma norm2_scale: "norm2 (map (\<lambda>a. a / d) v) = norm2 v / \<bar>d\<bar>"
  by (simp add: norm2_def o_def sum_squares_scale real_sqrt_divide real_sqrt_mult)

lemma norm2_normalised: "norm2 v \<noteq> 0 \<Longrightarrow> norm2 (map (\<lambda>a. a / norm2 v) v) = 1"
  using norm2_nonneg [of v] by (simp add: norm2_scale)

subsection \<open>Soft thresholding\<close>

lemma soft_threshold_eq:
  "soft_threshold x t p = map (\<lambda>a. sgn a * max (\<bar>a\<bar> - t) 0) x"
  by (induction x) (auto simp: soft_threshold_def max_def)

text \<open>
  C4. \<open>soft_threshold\<close> with the positivity flag set is claimed to give non-negative
  components only. The code ignores the flag: at \<open>x = [-2]\<close>, \<open>threshold = 1\<close>,
  \<open>positive = True\<close> it returns \<open>[-1]\<close>, the same as without the flag.
\<close>

theorem soft_threshold_positive_ignored:
  "soft_threshold [-2] 1 True = [-1] \<and> soft_threshold [-2] 1 False = [-1]"
  by (simp add: soft_threshold_def)

subsection \<open>The threshold search\<close>

lemma bin_search_eq:
  "bin_search cur prev v pv mn mx =
     Inr (next_current v pv cur prev mn mx, cur, next_min v cur mn, next_max v cur mx)"
  by (cases pv; cases "v \<le> 0")
     (auto simp: bin_search_def next_current_def next_min_def next_max_def)

lemma soft_threshold_flag: "soft_threshold w d p = soft_threshold w d False"
  by (simp add: soft_threshold_eq)

lemma renormalise_candidate:
  "(if norm2 (soft_threshold w d p) > 0
    then vec_div (soft_threshold w d p) (norm2 (soft_threshold w d p))
    else Inr (soft_threshold w d p)) = Inr (candidate w d)"
  using soft_threshold_flag [of w d p] by (auto simp: candidate_def vec_div_def Let_def)

lemma candidate_zero_or_unit: "(\<forall>x \<in> set (candidate w d). x = 0) \<or> norm2 (candidate w d) = 1"
proof (cases "norm2 (soft_threshold w d False) > 0")
  case True
  then show ?thesis by (simp add: candidate_def Let_def norm2_normalised)
next
  case False
  then have "norm2 (soft_threshold w d False) = 0"
    using norm2_nonneg [of "soft_threshold w d False"] by simp
  then show ?thesis by (simp add: candidate_def Let_def norm2_zero_iff)
qed

lemma delta_loop_step:
  "delta_loop w c p cur prev pv mn mx i =
     (if stops (gap w c cur) cur mn mx i
      then Some (Inr (candidate w cur, i + 1))
      else delta_loop w c p (next_current (gap w c cur) pv cur prev mn mx) cur
             (Some (gap w c cur)) (next_min (gap w c cur) cur mn) (next_max (gap w c cur) cur mx)
             (i + 1))"
  by (subst delta_loop.simps)
     (simp only: Let_def renormalise_candidate bin_search_eq sum.case prod.case stops_def gap_def)

lemma delta_loop_invariant:
  assumes step: "\<And>cur prev pv mn mx.
      I cur prev pv mn mx \<Longrightarrow>
      I (next_current (gap w c cur) pv cur prev mn mx) cur (Some (gap w c cur))
        (next_min (gap w c cur) cur mn) (next_max (gap w c cur) cur mx)"
  shows "I cur prev pv mn mx \<Longrightarrow> 0 \<le> i \<Longrightarrow> i < 50 \<Longrightarrow>
     \<exists>d prev' pv' mn' mx' n.
       delta_loop w c p cur prev pv mn mx i = Some (Inr (candidate w d, n))
       \<and> I d prev' pv' mn' mx' \<and> i < n \<and> n \<le> 50"
proof (induction "nat (49 - i)" arbitrary: i cur prev pv mn mx)
  case 0
  then have "stops (gap w c cur) cur mn mx i" by (simp add: stops_def)
  then have "delta_loop w c p cur prev pv mn mx i = Some (Inr (candidate w cur, i + 1))"
    by (subst delta_loop_step) simp
  with 0 show ?case by fastforce
next
  case (Suc k)
  show ?case
  proof (cases "stops (gap w c cur) cur mn mx i")
    case True
    then have "delta_loop w c p cur prev pv mn mx i = Some (Inr (candidate w cur, i + 1))"
      by (subst delta_loop_step) simp
    with Suc.prems show ?thesis by fastforce
  next
    case False
    let ?v = "gap w c cur"
    have eq: "delta_loop w c p cur prev pv mn mx i =
        delta_loop w c p (next_current ?v pv cur prev mn mx) cur
             (Some ?v) (next_min ?v cur mn) (next_max ?v cur mx) (i + 1)"
      using False by (subst delta_loop_step) simp
    have k: "k = nat (49 - (i + 1))" using Suc.hyps(2) by simp
    have i: "0 \<le> i + 1" "i + 1 < 50" using Suc.hyps(2) Suc.prems by auto
    from Suc.hyps(1) [OF k step [OF Suc.prems(1)] i]
    obtain d prev' pv' mn' mx' n where
      "delta_loop w c p (next_current ?v pv cur prev mn mx) cur
             (Some ?v) (next_min ?v cur mn) (next_max ?v cur mx) (i + 1)
         = Some (Inr (candidate w d, n))"
      "I d prev' pv' mn' mx'" "i + 1 < n" "n \<le> 50"
      by blast
    then show ?thesis unfolding eq by (intro exI [of _ d] exI [of _ prev'] exI [of _ pv'] exI [of _ mn'] exI [of _ mx'] exI [of _ n]) simp
  qed
qed

lemma delta_loop_returns:
  assumes "0 \<le> i" "i < 50"
  shows "\<exists>d n. delta_loop w c p cur prev pv mn mx i = Some (Inr (candidate w d, n)) \<and> i < n \<and> n \<le> 50"
  using delta_loop_invariant [where I = "\<lambda>_ _ _ _ _. True" and w = w and c = c and p = p
      and cur = cur and prev = prev and pv = pv and mn = mn and mx = mx, OF _ _ assms]
  by blast

lemma delta_search_returns: "\<exists>r. delta_search w c p init = Some r"
proof (cases "vec_div w (norm2 w)")
  case (Inl e)
  then show ?thesis by (simp add: delta_search_def)
next
  case (Inr w')
  from delta_loop_returns [of 0 w' c p init init None 0 10]
  obtain d n where "delta_loop w' c p init init None 0 10 0 = Some (Inr (candidate w' d, n))"
    by auto
  with Inr show ?thesis by (simp add: delta_search_def)
qed

text \<open>
  C10. For a weight vector of non-zero norm, any budget and either positivity flag, the
  search returns a vector and raises nothing: the division of the candidate by its norm
  happens only under the guard that the norm is positive, so it never produces a
  non-finite value. The vector returned is all zero or has Euclidean norm 1.
\<close>

theorem delta_search_division_defined:
  assumes "norm2 w \<noteq> 0"
  shows "\<exists>coef. delta_search w c positive init = Some (Inr coef)
           \<and> (list_all (\<lambda>x. x = 0) coef \<or> norm2 coef = 1)"
proof -
  let ?w = "map (\<lambda>x. x / norm2 w) w"
  have w: "vec_div w (norm2 w) = Inr ?w"
    using assms by (simp add: vec_div_def)
  from delta_loop_returns [of 0 ?w c positive init init None 0 10]
  obtain d n where "delta_loop ?w c positive init init None 0 10 0 = Some (Inr (candidate ?w d, n))"
    by auto
  then have "delta_search w c positive init = Some (Inr (candidate ?w d))"
    by (simp add: delta_search_def w)
  with candidate_zero_or_unit [of ?w d] show ?thesis
    by (auto simp: list_all_iff)
qed

theorem delta_search_division_defined_witness:
  "norm2 [3, 4] \<noteq> 0 \<and>
   (\<exists>coef. delta_search [3, 4] 1 True 0 = Some (Inr coef)
           \<and> (list_all (\<lambda>x. x = 0) coef \<or> norm2 coef = 1))"
proof -
  have n: "norm2 [3, 4] \<noteq> 0" by (simp add: norm2_zero_iff)
  from delta_search_division_defined [OF n, of 1 True 0] n show ?thesis by blast
qed

subsection \<open>Monotonicity of the threshold search\<close>

lemma ratio_sum_expand:
  fixes A B D h :: real and f :: "real \<Rightarrow> real"
  shows "(\<Sum>x\<leftarrow>u. (A * f x - B * x) * (D * (A * f x + B * x) - 2 * A * B * h))
       = D * A * A * (\<Sum>x\<leftarrow>u. f x * f x) - D * B * B * (\<Sum>x\<leftarrow>u. x * x)
         - 2 * A * A * B * h * (\<Sum>x\<leftarrow>u. f x) + 2 * A * B * B * h * (\<Sum>x\<leftarrow>u. x)"
  by (induction u) (simp_all add: algebra_simps)

lemma ratio_pointwise:
  fixes A B h x :: real
  assumes "0 \<le> B" "B \<le> A" "0 \<le> h" "0 \<le> x"
  shows "0 \<le> (A * max (x - h) 0 - B * x)
              * ((A - B) * (A * max (x - h) 0 + B * x) - 2 * A * B * h)"
proof (cases "x \<le> h")
  case True
  have "0 \<le> B * B * x * (2 * A * h - (A - B) * x)"
  proof -
    have "(A - B) * x \<le> A * h"
      using assms True by (intro mult_mono) auto
    moreover have "0 \<le> A * h" using assms by simp
    ultimately have "0 \<le> 2 * A * h - (A - B) * x" by simp
    then show ?thesis using assms by (intro mult_nonneg_nonneg) auto
  qed
  moreover have "(A * max (x - h) 0 - B * x)
              * ((A - B) * (A * max (x - h) 0 + B * x) - 2 * A * B * h)
            = B * B * x * (2 * A * h - (A - B) * x)"
    using True by (simp add: max_def algebra_simps)
  ultimately show ?thesis by simp
next
  case False
  have "(A * max (x - h) 0 - B * x)
              * ((A - B) * (A * max (x - h) 0 + B * x) - 2 * A * B * h)
            = (A + B) * (((A - B) * x - A * h) * ((A - B) * x - A * h))"
    using False by (simp add: max_def algebra_simps)
  moreover have "0 \<le> (A + B) * (((A - B) * x - A * h) * ((A - B) * x - A * h))"
  proof -
    have "0 \<le> A + B" using assms by simp
    moreover have "0 \<le> ((A - B) * x - A * h) * ((A - B) * x - A * h)" by simp
    ultimately show ?thesis by (rule mult_nonneg_nonneg)
  qed
  ultimately show ?thesis by simp
qed

lemma sum_shrink_nonneg: "0 \<le> (\<Sum>x\<leftarrow>u. max (x - h) (0 :: real))"
  by (rule sum_list_nonneg) auto

lemma sum_shrink_le:
  fixes u :: "real list" and h :: real
  assumes "0 \<le> h" "\<forall>x \<in> set u. 0 \<le> x"
  shows "(\<Sum>x\<leftarrow>u. max (x - h) 0) \<le> (\<Sum>x\<leftarrow>u. x)"
  using assms sum_list_mono [of u "\<lambda>x. max (x - h) 0" "\<lambda>x. x"] by auto

lemma sum_shrink_eq_imp:
  fixes u :: "real list" and h :: real
  assumes "0 \<le> h" "\<forall>x \<in> set u. 0 \<le> x"
    and eq: "(\<Sum>x\<leftarrow>u. max (x - h) 0) = (\<Sum>x\<leftarrow>u. x)"
  shows "(\<Sum>x\<leftarrow>u. max (x - h) 0 * max (x - h) 0) = (\<Sum>x\<leftarrow>u. x * x)"
proof -
  have "(\<Sum>x\<leftarrow>u. x - max (x - h) 0) = 0"
    using eq sum_list_subtractf [of "\<lambda>x. x" "\<lambda>x. max (x - h) 0" u] by simp
  moreover have "\<forall>y \<in> set (map (\<lambda>x. x - max (x - h) 0) u). 0 \<le> y"
    using assms by auto
  ultimately have "\<forall>y \<in> set (map (\<lambda>x. x - max (x - h) 0) u). y = 0"
    using sum_list_nonneg_eq_0_iff [of "map (\<lambda>x. x - max (x - h) 0) u"] by blast
  then have "\<forall>x \<in> set u. max (x - h) 0 = x" by auto
  then show ?thesis by (intro arg_cong [where f = sum_list] map_cong) auto
qed

text \<open>
  The core inequality: lowering every entry of a non-negative vector by \<open>h\<close> (and
  cutting at zero) does not increase the ratio of its 1-norm to its 2-norm.
\<close>

lemma ratio_core:
  fixes u :: "real list"
  assumes h: "0 \<le> h" and u: "\<forall>x \<in> set u. 0 \<le> x"
  shows "(\<Sum>x\<leftarrow>u. max (x - h) 0) * (\<Sum>x\<leftarrow>u. max (x - h) 0) * (\<Sum>x\<leftarrow>u. x * x)
       \<le> (\<Sum>x\<leftarrow>u. x) * (\<Sum>x\<leftarrow>u. x) * (\<Sum>x\<leftarrow>u. max (x - h) 0 * max (x - h) 0)"
proof -
  define A where "A = (\<Sum>x\<leftarrow>u. x)"
  define B where "B = (\<Sum>x\<leftarrow>u. max (x - h) 0)"
  define U2 where "U2 = (\<Sum>x\<leftarrow>u. x * x)"
  define V2 where "V2 = (\<Sum>x\<leftarrow>u. max (x - h) 0 * max (x - h) 0)"
  have B0: "0 \<le> B" unfolding B_def by (rule sum_shrink_nonneg)
  have BA: "B \<le> A" unfolding A_def B_def using h u by (rule sum_shrink_le)
  show ?thesis
  proof (cases "B = A")
    case True
    then have "V2 = U2"
      unfolding A_def B_def U2_def V2_def using sum_shrink_eq_imp [OF h u] by simp
    with True show ?thesis
      unfolding A_def B_def U2_def V2_def by simp
  next
    case False
    with BA have D: "0 < A - B" by simp
    have "0 \<le> (\<Sum>x\<leftarrow>u. (A * max (x - h) 0 - B * x)
                     * ((A - B) * (A * max (x - h) 0 + B * x) - 2 * A * B * h))"
      using u by (intro sum_list_nonneg) (auto intro!: ratio_pointwise [OF B0 BA h])
    also have "\<dots> = (A - B) * A * A * V2 - (A - B) * B * B * U2
         - 2 * A * A * B * h * B + 2 * A * B * B * h * A"
      unfolding ratio_sum_expand [of A "\<lambda>x. max (x - h) 0" B "A - B" h u]
      unfolding A_def [symmetric] B_def [symmetric] U2_def [symmetric] V2_def [symmetric] ..
    also have "\<dots> = (A - B) * (A * A * V2 - B * B * U2)"
      by (simp add: algebra_simps)
    finally have "0 \<le> A * A * V2 - B * B * U2"
      using D by (simp add: zero_le_mult_iff)
    then show ?thesis
      unfolding A_def B_def U2_def V2_def by simp
  qed
qed

lemma soft_entry_abs:
  fixes a d :: real
  assumes "0 \<le> d"
  shows "\<bar>sgn a * max (\<bar>a\<bar> - d) 0\<bar> = max (\<bar>a\<bar> - d) 0"
  using assms by (cases "a = 0") (auto simp: abs_mult max_def sgn_real_def)

lemma soft_entry_square:
  fixes a d :: real
  assumes "0 \<le> d"
  shows "(sgn a * max (\<bar>a\<bar> - d) 0) * (sgn a * max (\<bar>a\<bar> - d) 0)
           = max (\<bar>a\<bar> - d) 0 * max (\<bar>a\<bar> - d) 0"
  using assms by (cases "a = 0") (auto simp: max_def sgn_real_def)

lemma norm1_soft:
  assumes "0 \<le> d"
  shows "norm1 (soft_threshold w d p) = (\<Sum>x\<leftarrow>w. max (\<bar>x\<bar> - d) 0)"
  using assms by (simp add: norm1_def soft_threshold_eq o_def soft_entry_abs)

lemma sumsq_soft:
  assumes "0 \<le> d"
  shows "(\<Sum>x\<leftarrow>soft_threshold w d p. x * x) = (\<Sum>x\<leftarrow>w. max (\<bar>x\<bar> - d) 0 * max (\<bar>x\<bar> - d) 0)"
  using assms by (simp add: soft_threshold_eq o_def soft_entry_square)

lemma norm1_nonneg: "0 \<le> norm1 v"
  unfolding norm1_def by (rule sum_list_nonneg) auto

lemma norm1_scale: "norm1 (map (\<lambda>a. a / n) v) = norm1 v / \<bar>n\<bar>"
  by (induction v) (simp_all add: norm1_def add_divide_distrib)

lemma norm1_zero: "norm2 v = 0 \<Longrightarrow> norm1 v = 0"
proof -
  assume "norm2 v = 0"
  then have "\<forall>x \<in> set v. x = 0" by (simp add: norm2_zero_iff)
  then show ?thesis unfolding norm1_def by (induction v) auto
qed

lemma norm1_candidate:
  "norm1 (candidate w d) =
     (if norm2 (soft_threshold w d False) > 0
      then norm1 (soft_threshold w d False) / norm2 (soft_threshold w d False) else 0)"
proof (cases "norm2 (soft_threshold w d False) > 0")
  case True
  then show ?thesis by (simp add: candidate_def Let_def norm1_scale)
next
  case False
  then have "norm2 (soft_threshold w d False) = 0"
    using norm2_nonneg [of "soft_threshold w d False"] by simp
  with False show ?thesis by (simp add: candidate_def Let_def norm1_zero)
qed

lemma shrink_twice:
  fixes x d d' :: real
  assumes "d \<le> d'"
  shows "max (max (\<bar>x\<bar> - d) 0 - (d' - d)) 0 = max (\<bar>x\<bar> - d') 0"
  using assms by (auto simp: max_def)

lemma ratio_soft:
  assumes "0 \<le> d" "d \<le> d'"
  shows "norm1 (soft_threshold w d' p) * norm1 (soft_threshold w d' p)
           * (\<Sum>x\<leftarrow>soft_threshold w d p. x * x)
       \<le> norm1 (soft_threshold w d p) * norm1 (soft_threshold w d p)
           * (\<Sum>x\<leftarrow>soft_threshold w d' p. x * x)"
proof -
  let ?u = "map (\<lambda>x. max (\<bar>x\<bar> - d) 0) w"
  have d': "0 \<le> d'" using assms by simp
  have h: "0 \<le> d' - d" using assms by simp
  have u: "\<forall>x \<in> set ?u. 0 \<le> x" by auto
  from ratio_core [OF h u] show ?thesis
    using assms(2)
    by (simp add: norm1_soft [OF assms(1)] norm1_soft [OF d'] sumsq_soft [OF assms(1)]
          sumsq_soft [OF d'] o_def shrink_twice)
qed

lemma sumsq_soft_mono:
  assumes "0 \<le> d" "d \<le> d'"
  shows "(\<Sum>x\<leftarrow>soft_threshold w d' p. x * x) \<le> (\<Sum>x\<leftarrow>soft_threshold w d p. x * x)"
proof -
  have d': "0 \<le> d'" using assms by simp
  have "(\<Sum>x\<leftarrow>w. max (\<bar>x\<bar> - d') 0 * max (\<bar>x\<bar> - d') 0)
          \<le> (\<Sum>x\<leftarrow>w. max (\<bar>x\<bar> - d) 0 * max (\<bar>x\<bar> - d) 0)"
    using assms by (intro sum_list_mono mult_mono) (auto simp: max_def)
  then show ?thesis by (simp add: sumsq_soft [OF assms(1)] sumsq_soft [OF d'])
qed

lemma candidate_norm1_antimono:
  assumes "0 \<le> d" "d \<le> d'"
  shows "norm1 (candidate w d') \<le> norm1 (candidate w d)"
proof (cases "norm2 (soft_threshold w d' False) > 0")
  case False
  then show ?thesis by (simp add: norm1_candidate [of w d'] norm1_nonneg)
next
  case True
  let ?S1 = "norm1 (soft_threshold w d False)" and ?S1' = "norm1 (soft_threshold w d' False)"
  let ?Q = "\<Sum>x\<leftarrow>soft_threshold w d False. x * x"
  let ?Q' = "\<Sum>x\<leftarrow>soft_threshold w d' False. x * x"
  from True have Q': "0 < ?Q'" by (simp add: norm2_def)
  with sumsq_soft_mono [OF assms, of w False] have Q: "0 < ?Q" by simp
  then have pos: "norm2 (soft_threshold w d False) > 0" by (simp add: norm2_def)
  have "sqrt (?S1' * ?S1' * ?Q) \<le> sqrt (?S1 * ?S1 * ?Q')"
    using ratio_soft [OF assms, of w False] by simp
  then have "?S1' * sqrt ?Q \<le> ?S1 * sqrt ?Q'"
    using norm1_nonneg [of "soft_threshold w d False"] norm1_nonneg [of "soft_threshold w d' False"]
    by (simp add: real_sqrt_mult)
  then have "?S1' / sqrt ?Q' \<le> ?S1 / sqrt ?Q"
    using Q Q' by (simp add: field_simps)
  then show ?thesis
    using True pos by (simp add: norm1_candidate norm2_def)
qed

lemma bracket_next_current:
  assumes "bracket lo hi cur prev pv mn mx"
  shows "next_current v pv cur prev mn mx = (if v \<le> 0 then (cur + mx) / 2 else (cur + mn) / 2)"
  using assms by (cases pv) (auto simp: bracket_def next_current_def)

lemma bracket_step:
  assumes "bracket lo hi cur prev pv mn mx"
  shows "bracket (next_min v cur mn) (next_max v cur mx)
           (next_current v pv cur prev mn mx) cur (Some v) (next_min v cur mn) (next_max v cur mx)"
  unfolding bracket_next_current [OF assms]
  using assms by (auto simp: bracket_def next_min_def next_max_def)

lemma bracket_weaken:
  assumes "bracket lo hi cur prev pv mn mx" "lo' \<le> lo" "hi \<le> hi'"
  shows "bracket lo' hi' cur prev pv mn mx"
  using assms by (auto simp: bracket_def)

lemma bracket_bounds:
  assumes "bracket lo hi cur prev pv mn mx"
  shows "lo \<le> next_min v cur mn" "next_max v cur mx \<le> hi"
  using assms by (auto simp: bracket_def next_min_def next_max_def)

lemma delta_loop_in_bracket:
  assumes "bracket lo hi cur prev pv mn mx" "0 \<le> i" "i < 50"
  shows "\<exists>d n. delta_loop w c p cur prev pv mn mx i = Some (Inr (candidate w d, n))
           \<and> lo \<le> d \<and> d \<le> hi \<and> i < n \<and> n \<le> 50"
proof -
  have step: "\<And>cur prev pv mn mx.
      bracket lo hi cur prev pv mn mx \<Longrightarrow>
      bracket lo hi (next_current (gap w c cur) pv cur prev mn mx) cur (Some (gap w c cur))
        (next_min (gap w c cur) cur mn) (next_max (gap w c cur) cur mx)"
    by (rule bracket_weaken [OF bracket_step]) (auto dest: bracket_bounds)
  from delta_loop_invariant [where I = "bracket lo hi", OF step assms]
  obtain d prev' pv' mn' mx' n where
    "delta_loop w c p cur prev pv mn mx i = Some (Inr (candidate w d, n))"
    "bracket lo hi d prev' pv' mn' mx'" "i < n" "n \<le> 50"
    by blast
  then show ?thesis by (auto simp: bracket_def)
qed

lemma bracket_same_side:
  assumes "bracket lo hi cur prev pv1 mn mx" "same_side pv1 pv2"
  shows "bracket lo hi cur prev pv2 mn mx"
  using assms by (cases pv1; cases pv2) (auto simp: bracket_def same_side_def)

lemma stops_left:
  assumes "v1 < v2" "v2 \<le> 0" "stops v1 cur mn mx i"
  shows "stops v2 cur mn mx i"
  using assms by (auto simp: stops_def next_min_def next_max_def)

lemma stops_right:
  assumes "v1 < v2" "0 < v1" "stops v2 cur mn mx i"
  shows "stops v1 cur mn mx i"
  using assms by (auto simp: stops_def next_min_def next_max_def)

lemma delta_loop_stop:
  "stops (gap w c cur) cur mn mx i \<Longrightarrow>
   delta_loop w c p cur prev pv mn mx i = Some (Inr (candidate w cur, i + 1))"
  by (subst delta_loop_step) simp

lemma delta_loop_continue:
  "\<not> stops (gap w c cur) cur mn mx i \<Longrightarrow>
   delta_loop w c p cur prev pv mn mx i =
     delta_loop w c p (next_current (gap w c cur) pv cur prev mn mx) cur
       (Some (gap w c cur)) (next_min (gap w c cur) cur mn) (next_max (gap w c cur) cur mx) (i + 1)"
  by (subst delta_loop_step) simp

lemma delta_loop_after_nonpositive:
  assumes b: "bracket lo hi cur prev pv mn mx" and v: "gap w c cur \<le> 0"
    and ns: "\<not> stops (gap w c cur) cur mn mx i" and i: "0 \<le> i" "i < 50"
  shows "\<exists>d n. delta_loop w c p cur prev pv mn mx i = Some (Inr (candidate w d, n)) \<and> cur \<le> d"
proof -
  from ns i have i': "0 \<le> i + 1" "i + 1 < 50" by (auto simp: stops_def)
  have "next_min (gap w c cur) cur mn = cur"
    using b v by (auto simp: bracket_def next_min_def)
  with bracket_step [OF b, of "gap w c cur"]
  have "bracket cur (next_max (gap w c cur) cur mx)
           (next_current (gap w c cur) pv cur prev mn mx) cur (Some (gap w c cur))
           (next_min (gap w c cur) cur mn) (next_max (gap w c cur) cur mx)" by simp
  from delta_loop_in_bracket [OF this i', of w c p] show ?thesis
    unfolding delta_loop_continue [OF ns] by blast
qed

lemma delta_loop_after_positive:
  assumes b: "bracket lo hi cur prev pv mn mx" and v: "0 < gap w c cur"
    and ns: "\<not> stops (gap w c cur) cur mn mx i" and i: "0 \<le> i" "i < 50"
  shows "\<exists>d n. delta_loop w c p cur prev pv mn mx i = Some (Inr (candidate w d, n))
           \<and> lo \<le> d \<and> d \<le> cur"
proof -
  from ns i have i': "0 \<le> i + 1" "i + 1 < 50" by (auto simp: stops_def)
  have "next_max (gap w c cur) cur mx = cur"
    using b v by (auto simp: bracket_def next_max_def)
  with bracket_step [OF b, of "gap w c cur"]
  have "bracket (next_min (gap w c cur) cur mn) cur
           (next_current (gap w c cur) pv cur prev mn mx) cur (Some (gap w c cur))
           (next_min (gap w c cur) cur mn) (next_max (gap w c cur) cur mx)" by simp
  then have "bracket lo cur
           (next_current (gap w c cur) pv cur prev mn mx) cur (Some (gap w c cur))
           (next_min (gap w c cur) cur mn) (next_max (gap w c cur) cur mx)"
    by (rule bracket_weaken) (use bracket_bounds [OF b] in auto)
  from delta_loop_in_bracket [OF this i', of w c p] show ?thesis
    unfolding delta_loop_continue [OF ns] by blast
qed

lemma delta_loop_monotone:
  assumes c: "c1 < c2"
  shows "bracket lo hi cur prev pv1 mn mx \<Longrightarrow> same_side pv1 pv2 \<Longrightarrow> 0 \<le> lo \<Longrightarrow>
     0 \<le> i \<Longrightarrow> i < 50 \<Longrightarrow>
     \<exists>d1 d2 n1 n2.
        delta_loop w c1 p cur prev pv1 mn mx i = Some (Inr (candidate w d1, n1))
      \<and> delta_loop w c2 p cur prev pv2 mn mx i = Some (Inr (candidate w d2, n2))
      \<and> norm1 (candidate w d1) \<le> norm1 (candidate w d2)"
proof (induction "nat (49 - i)" arbitrary: i cur prev pv1 pv2 mn mx lo hi)
  case 0
  then have "i + 1 = 50" by simp
  then have "stops (gap w c1 cur) cur mn mx i" "stops (gap w c2 cur) cur mn mx i"
    by (simp_all add: stops_def)
  then show ?case by (auto simp: delta_loop_stop)
next
  case (Suc k)
  let ?v1 = "gap w c1 cur" and ?v2 = "gap w c2 cur"
  have v: "?v1 < ?v2" using c by (simp add: gap_def)
  have b1: "bracket lo hi cur prev pv1 mn mx" by fact
  have b2: "bracket lo hi cur prev pv2 mn mx"
    using b1 Suc.prems(2) by (rule bracket_same_side)
  have cur0: "0 \<le> cur" "lo \<le> cur" using b1 Suc.prems(3) by (auto simp: bracket_def)
  have i: "0 \<le> i" "i < 50" by fact+
  show ?case
  proof (cases "stops ?v1 cur mn mx i")
    case s1: True
    show ?thesis
    proof (cases "stops ?v2 cur mn mx i")
      case True
      with s1 show ?thesis by (auto simp: delta_loop_stop)
    next
      case s2: False
      with s1 v have pos: "0 < ?v2" using stops_left [of ?v1 ?v2 cur mn mx i] by force
      from delta_loop_after_positive [OF b2 pos s2 i, of p]
      obtain d2 n2 where r2: "delta_loop w c2 p cur prev pv2 mn mx i = Some (Inr (candidate w d2, n2))"
        and d2: "lo \<le> d2" "d2 \<le> cur" by blast
      from d2 Suc.prems(3) have "norm1 (candidate w cur) \<le> norm1 (candidate w d2)"
        by (intro candidate_norm1_antimono) auto
      with r2 s1 show ?thesis by (auto simp: delta_loop_stop)
    qed
  next
    case s1: False
    show ?thesis
    proof (cases "stops ?v2 cur mn mx i")
      case s2: True
      with s1 v have neg: "?v1 \<le> 0" using stops_right [of ?v1 ?v2 cur mn mx i] by force
      from delta_loop_after_nonpositive [OF b1 neg s1 i, of p]
      obtain d1 n1 where r1: "delta_loop w c1 p cur prev pv1 mn mx i = Some (Inr (candidate w d1, n1))"
        and d1: "cur \<le> d1" by blast
      from d1 cur0 have "norm1 (candidate w d1) \<le> norm1 (candidate w cur)"
        by (intro candidate_norm1_antimono) auto
      with r1 s2 show ?thesis by (auto simp: delta_loop_stop)
    next
      case s2: False
      show ?thesis
      proof (cases "(?v1 \<le> 0) = (?v2 \<le> 0)")
        case True
        then have eqs: "next_min ?v2 cur mn = next_min ?v1 cur mn"
          "next_max ?v2 cur mx = next_max ?v1 cur mx"
          "next_current ?v2 pv2 cur prev mn mx = next_current ?v1 pv1 cur prev mn mx"
          unfolding bracket_next_current [OF b1] bracket_next_current [OF b2]
          by (auto simp: next_min_def next_max_def)
        have ss: "same_side (Some ?v1) (Some ?v2)" using True by (simp add: same_side_def)
        have k: "k = nat (49 - (i + 1))" using Suc.hyps(2) by simp
        from s1 i have i': "0 \<le> i + 1" "i + 1 < 50" by (auto simp: stops_def)
        have b': "bracket lo hi (next_current ?v1 pv1 cur prev mn mx) cur (Some ?v1)
                    (next_min ?v1 cur mn) (next_max ?v1 cur mx)"
          by (rule bracket_weaken [OF bracket_step [OF b1]]) (use bracket_bounds [OF b1] in auto)
        from Suc.hyps(1) [OF k b' ss Suc.prems(3) i']
        show ?thesis
          unfolding delta_loop_continue [OF s1] delta_loop_continue [OF s2] eqs .
      next
        case False
        with v have neg: "?v1 \<le> 0" and pos: "0 < ?v2" by auto
        from delta_loop_after_nonpositive [OF b1 neg s1 i, of p]
        obtain d1 n1 where r1: "delta_loop w c1 p cur prev pv1 mn mx i = Some (Inr (candidate w d1, n1))"
          and d1: "cur \<le> d1" by blast
        from delta_loop_after_positive [OF b2 pos s2 i, of p]
        obtain d2 n2 where r2: "delta_loop w c2 p cur prev pv2 mn mx i = Some (Inr (candidate w d2, n2))"
          and d2: "lo \<le> d2" "d2 \<le> cur" by blast
        have "norm1 (candidate w d1) \<le> norm1 (candidate w cur)"
          using d1 cur0 by (intro candidate_norm1_antimono) auto
        moreover have "norm1 (candidate w cur) \<le> norm1 (candidate w d2)"
          using d2 Suc.prems(3) by (intro candidate_norm1_antimono) auto
        ultimately have "norm1 (candidate w d1) \<le> norm1 (candidate w d2)" by simp
        with r1 r2 show ?thesis by blast
      qed
    qed
  qed
qed

text \<open>
  C8. For a fixed weight vector (and a starting threshold inside the bracket
  \<open>[0, 10]\<close>, as the default 0 is) a larger budget \<open>c\<close> never gives a result of
  smaller 1-norm: both searches return, and the 1-norm for \<open>c1\<close> is at most the one for
  \<open>c2\<close> whenever \<open>c1 < c2\<close> (a vector of norm zero makes both fail alike). Every
  run of the loop from \<open>i = 0\<close> ends after at least 1 and at most 50 iterations.
\<close>

theorem delta_search_monotone_bounded:
  assumes "c1 < c2" "0 \<le> init" "init \<le> 10"
  shows "(\<exists>r1 r2. delta_search w c1 p init = Some r1 \<and> delta_search w c2 p init = Some r2
            \<and> (case r1 of
                  Inl e \<Rightarrow> r2 = Inl e
                | Inr a \<Rightarrow> (case r2 of Inl e \<Rightarrow> False | Inr b \<Rightarrow> norm1 a \<le> norm1 b)))
       \<and> (\<exists>coef n. delta_loop v c p cur cur None 0 10 0 = Some (Inr (coef, n))
              \<and> 1 \<le> n \<and> n \<le> 50)"
proof
  show "\<exists>r1 r2. delta_search w c1 p init = Some r1 \<and> delta_search w c2 p init = Some r2
            \<and> (case r1 of
                  Inl e \<Rightarrow> r2 = Inl e
                | Inr a \<Rightarrow> (case r2 of Inl e \<Rightarrow> False | Inr b \<Rightarrow> norm1 a \<le> norm1 b))"
  proof (cases "vec_div w (norm2 w)")
    case (Inl e)
    then show ?thesis by (simp add: delta_search_def)
  next
    case (Inr w')
    have b: "bracket 0 10 init init None 0 10"
      using assms by (simp add: bracket_def)
    have ss: "same_side None None" by (simp add: same_side_def)
    from delta_loop_monotone [OF assms(1) b ss, of 0 w' p]
    obtain d1 d2 n1 n2 where
      "delta_loop w' c1 p init init None 0 10 0 = Some (Inr (candidate w' d1, n1))"
      "delta_loop w' c2 p init init None 0 10 0 = Some (Inr (candidate w' d2, n2))"
      "norm1 (candidate w' d1) \<le> norm1 (candidate w' d2)"
      by auto
    with Inr show ?thesis by (simp add: delta_search_def)
  qed
next
  from delta_loop_returns [of 0 v c p cur cur None 0 10]
  show "\<exists>coef n. delta_loop v c p cur cur None 0 10 0 = Some (Inr (coef, n)) \<and> 1 \<le> n \<and> n \<le> 50"
    by force
qed

theorem delta_search_monotone_bounded_witness:
  "(1 :: real) < 2 \<and> (0 :: real) \<le> 0 \<and> (0 :: real) \<le> 10 \<and>
   (\<exists>r1 r2. delta_search [3, 4] 1 False 0 = Some r1 \<and> delta_search [3, 4] 2 False 0 = Some r2
            \<and> (case r1 of
                  Inl e \<Rightarrow> r2 = Inl e
                | Inr a \<Rightarrow> (case r2 of Inl e \<Rightarrow> False | Inr b \<Rightarrow> norm1 a \<le> norm1 b)))
   \<and> (\<exists>coef n. delta_loop [3 / 5, 4 / 5] 1 False 0 0 None 0 10 0 = Some (Inr (coef, n))
              \<and> 1 \<le> n \<and> n \<le> 50)"
proof -
  have h: "(1 :: real) < 2" "(0 :: real) \<le> 0" "(0 :: real) \<le> 10" by simp_all
  from delta_search_monotone_bounded [OF h, of "[3, 4]" False "[3 / 5, 4 / 5]" 1 0] h
  show ?thesis by blast
qed

subsection \<open>Projection onto the unit ball\<close>

lemma prox_lam_g_eq:
  "prox_lam_g x = (if norm2 x \<le> 1 then x else map (\<lambda>a. a / norm2 x) x)"
  by (auto simp: prox_lam_g_def Let_def max_def)

text \<open>
  C9. \<open>prox_lam_g\<close> is the identity on vectors of Euclidean norm at most 1, returns
  \<open>x / \<parallel>x\<parallel>\<close> on all others, and applying it twice gives the same as applying it once.
\<close>

theorem prox_lam_g_projection_idempotent:
  "prox_lam_g x = (if norm2 x \<le> 1 then x else map (\<lambda>a. a / norm2 x) x)
   \<and> prox_lam_g (prox_lam_g x) = prox_lam_g x"
proof -
  have idem: "prox_lam_g (prox_lam_g x) = prox_lam_g x"
  proof (cases "norm2 x \<le> 1")
    case True
    then show ?thesis by (simp add: prox_lam_g_eq)
  next
    case False
    then have "norm2 x \<noteq> 0" by simp
    then have "norm2 (map (\<lambda>a. a / norm2 x) x) = 1" by (rule norm2_normalised)
    with False show ?thesis by (simp add: prox_lam_g_eq)
  qed
  with prox_lam_g_eq [of x] show ?thesis by simp
qed

theorem prox_lam_g_projection_idempotent_witness:
  "prox_lam_g [3, 4] = [3 / 5, 4 / 5] \<and> prox_lam_g (prox_lam_g [3, 4]) = [3 / 5, 4 / 5]"
proof -
  have n: "norm2 [3, 4] = 5"
    using real_sqrt_abs2 [of 5] by (simp add: norm2_def)
  have "prox_lam_g [3, 4] = [3 / 5, 4 / 5]"
    using prox_lam_g_projection_idempotent [of "[3, 4]"] by (simp only: n) simp
  moreover have "prox_lam_g (prox_lam_g [3, 4]) = prox_lam_g [3, 4]"
    using prox_lam_g_projection_idempotent [of "[3, 4]"] by (rule conjunct2)
  ultimately show ?thesis by simp
qed

subsection \<open>The fit skeleton\<close>

lemma fit_with_small:
  "length views \<le> 2 \<Longrightarrow>
   fit_with init m s views =
     (case check_params m (s\<lparr>self_views := views\<rparr>) of
        Inl e \<Rightarrow> ([], Inl e)
      | Inr s \<Rightarrow>
          (case init s of
             (w, Inl e) \<Rightarrow> (w, Inl e)
           | (w, Inr s) \<Rightarrow>
               (w, fit_loop m (nat (self_max_iter s)) 0 (s\<lparr>self_track_objective := []\<rparr>))))"
  by (simp add: fit_with_def Let_def split: sum.splits prod.splits)

lemma fit_with_many:
  "length views > 2 \<Longrightarrow>
   fit_with init m s views =
     (case check_params m (s\<lparr>self_views := views, self_generalized := True\<rparr>) of
        Inl e \<Rightarrow> ([''For more than 2 views require generalized=True''], Inl e)
      | Inr s \<Rightarrow>
          (case init s of
             (w, Inl e) \<Rightarrow> (''For more than 2 views require generalized=True'' # w, Inl e)
           | (w, Inr s) \<Rightarrow>
               (''For more than 2 views require generalized=True'' # w,
                fit_loop m (nat (self_max_iter s)) 0 (s\<lparr>self_track_objective := []\<rparr>))))"
  by (simp add: fit_with_def Let_def split: sum.splits prod.splits)

lemma fit_loop_pos:
  "0 < n \<Longrightarrow> fit_loop m n k s =
     (case inner_iteration m s of
        Inl e \<Rightarrow> Inl e
      | Inr s \<Rightarrow>
          (let s = s\<lparr>self_track_objective := self_track_objective s @ [objective m s]\<rparr>
           in if k > 0 \<and> early_stop m s then Inr s
              else fit_loop m (n - 1) (Suc k) (s\<lparr>self_old_scores := self_scores s\<rparr>)))"
  by (cases n) (auto simp: Let_def split: sum.splits)

lemma norm2_single: "norm2 [x] = \<bar>x\<bar>"
  by (simp add: norm2_def)


lemma pls_iter_single:
  assumes "self_views s = [[[1]]]" "self_scores s = [[x]]" "self_weights s = [[y]]"
  shows "inner_iteration pls_methods s = Inr (s\<lparr>self_weights := [[1]], self_scores := [[1]]\<rparr>)"
  using assms
  by (simp add: pls_methods_def pls_inner_iteration_def pls_update_view_def has_view_def
        masked_sum_def matT_vec_def ncols_def Let_def norm2_single vec_div_def mat_vec_def dot_def)

lemma pls_objective_single:
  "self_scores s = [a] \<Longrightarrow> objective pls_methods s = 0"
  by (simp add: pls_methods_def base_objective_def)

lemma pls_early_stop_single:
  "self_scores s = [[1]] \<Longrightarrow> self_old_scores s = [[1]] \<Longrightarrow> self_tol s = 1 / 10 ^ 5 \<Longrightarrow> early_stop pls_methods s"
  by (simp add: pls_methods_def pls_early_stop_def cosine_similarity_gt_def norm2_single dot_def)

lemma pls_fit_loop_single:
  assumes "self_views s = [[[1]]]" "self_scores s = [[x]]" "self_weights s = [[y]]"
    "self_tol s = 1 / 10 ^ 5" "self_track_objective s = []"
  shows "fit_loop pls_methods 100 0 s =
     Inr (s\<lparr>self_weights := [[1]], self_scores := [[1]], self_old_scores := [[1]],
            self_track_objective := [0, 0]\<rparr>)"
  using assms
  apply (subst fit_loop_pos, simp)
  apply (simp add: pls_iter_single [where x = x and y = y] pls_objective_single Let_def)
  apply (subst fit_loop_pos, simp)
  apply (simp add: pls_iter_single [where x = 1 and y = 1] pls_objective_single Let_def pls_early_stop_single)
  done

text \<open>
  C1 (as stated) fails: \<open>PLSInnerLoop().fit(X)\<close> with the single view \<open>X = [[1.0]]\<close>
  raises nothing. It initialises, iterates twice and returns the fitted object.
\<close>

theorem fit_single_view_counterexample:
  "(case fit half pls_methods (new_loop 100 (1 / 10 ^ 5) False Unregularized) [[[1]]] of
      (w, Inl e) \<Rightarrow> False
    | (w, Inr s) \<Rightarrow> w = [] \<and> self_scores s = [[1]] \<and> self_weights s = [[1]]
         \<and> self_track_objective s = [0, 0])"
  apply (simp add: fit_def fit_with_small)
  apply (simp add: pls_methods_def [THEN arg_cong [where f = check_params]] pls_check_params_def)
  apply (simp add: initialize_def new_loop_def fit_with_small pls_random_def)
  apply (simp add: pls_methods_def [THEN arg_cong [where f = check_params]] pls_check_params_def)
  apply (simp add: initialize_random_def draw_weights_def half_def nrows_def ncols_def)
  apply (simp add: pls_fit_loop_single [where x = "1/2" and y = "1/2"] vec_div_def norm2_single)
  apply (simp add: draw_weights_def half_def ncols_def)
  apply (simp add: pls_fit_loop_single [where x = "1" and y = "1/2"])
  done

text \<open>
  C1 (as amended). \<open>fit\<close> has no lower bound on the number of views. Called with
  fewer than 2 views it emits no warning, leaves \<open>generalized\<close> as configured and runs
  \<open>check_params\<close>, \<open>initialize\<close> and the iteration loop as for two views; an error
  arises only if one of these steps raises.
\<close>

theorem fit_no_minimum_view_count:
  assumes "length views < 2"
  shows "fit rand m s views =
     (case check_params m (s\<lparr>self_views := views\<rparr>) of
        Inl e \<Rightarrow> ([], Inl e)
      | Inr s \<Rightarrow>
          (case initialize rand s of
             (w, Inl e) \<Rightarrow> (w, Inl e)
           | (w, Inr s) \<Rightarrow>
               (w, fit_loop m (nat (self_max_iter s)) 0 (s\<lparr>self_track_objective := []\<rparr>))))"
  using assms by (simp add: fit_def fit_with_small)

theorem fit_no_minimum_view_count_witness:
  "length [[[1 :: real]]] < 2 \<and>
   fit half pls_methods (new_loop 100 (1 / 10 ^ 5) False Unregularized) [[[1]]] =
     (case check_params pls_methods
             ((new_loop 100 (1 / 10 ^ 5) False Unregularized)\<lparr>self_views := [[[1]]]\<rparr>) of
        Inl e \<Rightarrow> ([], Inl e)
      | Inr s \<Rightarrow>
          (case initialize half s of
             (w, Inl e) \<Rightarrow> (w, Inl e)
           | (w, Inr s) \<Rightarrow>
               (w, fit_loop pls_methods (nat (self_max_iter s)) 0
                     (s\<lparr>self_track_objective := []\<rparr>))))"
proof -
  have h: "length [[[1 :: real]]] < 2" by simp
  show ?thesis by (rule conjI [OF h fit_no_minimum_view_count [OF h]])
qed

lemma process_parameter_length:
  "process_parameter name p d n = Inr xs \<Longrightarrow> length xs = n"
  by (auto simp: process_parameter_def split: param.splits if_splits)

lemma pmd_check_params_rejects:
  assumes cs: "process_parameter ''c'' (self_c s) 1 (length (self_views s)) = Inr cs"
    and bad: "\<exists>i < length (self_views s). cs ! i < 1 \<or> cs ! i > sqrt (real (ncols (self_views s ! i)))"
  shows "\<exists>msg. pmd_check_params s = Inl (ValueError msg)"
proof -
  have len: "length cs = length (self_views s)"
    using cs by (rule process_parameter_length)
  from bad obtain i where i: "i < length (self_views s)"
    and b: "cs ! i < 1 \<or> cs ! i > sqrt (real (ncols (self_views s ! i)))" by blast
  show ?thesis
  proof (cases "list_ex (\<lambda>c. c < 1) cs")
    case True
    then show ?thesis by (simp add: pmd_check_params_def cs)
  next
    case False
    then have "\<not> cs ! i < 1" using i len by (auto simp: list_ex_iff)
    with b have gt: "cs ! i > sqrt (real (ncols (self_views s ! i)))" by simp
    have "(cs ! i, sqrt (real (ncols (self_views s ! i))))
            \<in> set (zip cs (map (\<lambda>view. sqrt (real (ncols view))) (self_views s)))"
      using i len by (auto simp: set_zip intro!: exI [of _ i])
    with gt have "list_ex (\<lambda>(c, shape_sqrt). c > shape_sqrt)
                    (zip cs (map (\<lambda>view. sqrt (real (ncols view))) (self_views s)))"
      unfolding list_ex_iff by (intro bexI [of _ "(cs ! i, sqrt (real (ncols (self_views s ! i))))"]) auto
    with False show ?thesis by (simp add: pmd_check_params_def cs Let_def)
  qed
qed


text \<open>
  C5. A PMD fit whose normalised \<open>c\<close> has an entry below 1 or above the square root
  of the number of features of its view ends with a ValueError raised by
  \<open>check_params\<close>. The result is the same for every \<open>initialize\<close> and every
  iteration, loop objective and stopping rule: none of them is reached.
\<close>

theorem pmd_fit_rejects_before_initialize:
  assumes m: "check_params m = pmd_check_params"
    and cs: "process_parameter ''c'' (self_c s) 1 (length views) = Inr cs"
    and bad: "\<exists>i < length views. cs ! i < 1 \<or> cs ! i > sqrt (real (ncols (views ! i)))"
  shows "\<exists>msg. fit_with init m s views = (more_than_2_warning views, Inl (ValueError msg))"
proof (cases "length views > 2")
  case True
  let ?s = "s\<lparr>self_views := views, self_generalized := True\<rparr>"
  from pmd_check_params_rejects [of ?s cs] cs bad
  obtain msg where "pmd_check_params ?s = Inl (ValueError msg)" by auto
  with True show ?thesis
    by (simp add: fit_with_many m more_than_2_warning_def)
next
  case False
  let ?s = "s\<lparr>self_views := views\<rparr>"
  from pmd_check_params_rejects [of ?s cs] cs bad
  obtain msg where "pmd_check_params ?s = Inl (ValueError msg)" by auto
  with False show ?thesis
    by (simp add: fit_with_small m more_than_2_warning_def)
qed

theorem pmd_fit_rejects_before_initialize_witness:
  "check_params pmd_methods = pmd_check_params \<and>
   process_parameter ''c'' (self_c ((new_loop 100 (1 / 10 ^ 5) False Unregularized)\<lparr>self_c := PScalar (1 / 2)\<rparr>))
      1 (length [[[1 :: real, 2]], [[3, 4]]]) = Inr [1 / 2, 1 / 2] \<and>
   (\<exists>i < length [[[1 :: real, 2]], [[3, 4]]].
      [1 / 2, 1 / 2 :: real] ! i < 1
      \<or> [1 / 2, 1 / 2] ! i > sqrt (real (ncols ([[[1 :: real, 2]], [[3, 4]]] ! i)))) \<and>
   (\<exists>msg. fit_with (initialize half) pmd_methods
             ((new_loop 100 (1 / 10 ^ 5) False Unregularized)\<lparr>self_c := PScalar (1 / 2)\<rparr>)
             [[[1, 2]], [[3, 4]]]
           = (more_than_2_warning [[[1, 2]], [[3, 4]]], Inl (ValueError msg)))"
proof -
  have m: "check_params pmd_methods = pmd_check_params" by (simp add: pmd_methods_def)
  have cs: "process_parameter ''c''
      (self_c ((new_loop 100 (1 / 10 ^ 5) False Unregularized)\<lparr>self_c := PScalar (1 / 2)\<rparr>))
      1 (length [[[1 :: real, 2]], [[3, 4]]]) = Inr [1 / 2, 1 / 2]"
    by (simp add: process_parameter_def numeral_2_eq_2)
  have bad: "\<exists>i < length [[[1 :: real, 2]], [[3, 4]]].
      [1 / 2, 1 / 2 :: real] ! i < 1
      \<or> [1 / 2, 1 / 2] ! i > sqrt (real (ncols ([[[1 :: real, 2]], [[3, 4]]] ! i)))"
    by (intro exI [of _ 0]) simp
  from pmd_fit_rejects_before_initialize [OF m cs bad, of "initialize half"] m cs bad
  show ?thesis by blast
qed

text \<open>
  C7. With more than 2 views a fit configured with \<open>generalized=False\<close> is the fit
  configured with \<open>generalized=True\<close>: the flag is set before \<open>check_params\<close>, the
  warning is emitted in every case, and the view count itself raises nothing (the only
  errors are those of \<open>check_params\<close>, \<open>initialize\<close> and the iteration).
\<close>

theorem fit_forces_generalized:
  assumes "length views > 2"
  shows "fit_with init m (s\<lparr>self_generalized := False\<rparr>) views
           = fit_with init m (s\<lparr>self_generalized := True\<rparr>) views
       \<and> fit_with init m (s\<lparr>self_generalized := False\<rparr>) views =
          (case check_params m (s\<lparr>self_views := views, self_generalized := True\<rparr>) of
             Inl e \<Rightarrow> ([''For more than 2 views require generalized=True''], Inl e)
           | Inr s \<Rightarrow>
               (case init s of
                  (w, Inl e) \<Rightarrow> (''For more than 2 views require generalized=True'' # w, Inl e)
                | (w, Inr s) \<Rightarrow>
                    (''For more than 2 views require generalized=True'' # w,
                     fit_loop m (nat (self_max_iter s)) 0 (s\<lparr>self_track_objective := []\<rparr>))))"
  using assms by (simp add: fit_with_many)

lemma pls_iter_three:
  assumes "self_views s = [[[1]], [[1]], [[1]]]" "self_scores s = [[1 / 2], [1 / 2], [1 / 2]]"
    "self_weights s = [a, b, c]"
  shows "inner_iteration pls_methods s =
     Inr (s\<lparr>self_weights := [[1], [1], [1]], self_scores := [[1], [1], [1]]\<rparr>)"
  using assms
  by (simp add: pls_methods_def pls_inner_iteration_def pls_update_view_def has_view_def
        masked_sum_def matT_vec_def ncols_def Let_def norm2_single vec_div_def mat_vec_def
        dot_def upt_rec numeral_3_eq_3)

theorem fit_forces_generalized_witness:
  "length [[[1 :: real]], [[1]], [[1]]] > 2 \<and>
   fit_with (initialize half) pls_methods
      ((new_loop 1 (1 / 10 ^ 5) False Random)\<lparr>self_generalized := False\<rparr>)
      [[[1]], [[1]], [[1]]]
    = fit_with (initialize half) pls_methods
      ((new_loop 1 (1 / 10 ^ 5) False Random)\<lparr>self_generalized := True\<rparr>)
      [[[1]], [[1]], [[1]]] \<and>
   (case fit_with (initialize half) pls_methods
      ((new_loop 1 (1 / 10 ^ 5) False Random)\<lparr>self_generalized := False\<rparr>)
      [[[1]], [[1]], [[1]]] of
      (w, Inl e) \<Rightarrow> False
    | (w, Inr s) \<Rightarrow> w = [''For more than 2 views require generalized=True'']
        \<and> self_generalized s \<and> self_scores s = [[1], [1], [1]])"
proof -
  have h: "length [[[1 :: real]], [[1]], [[1]]] > 2" by simp
  note t = fit_forces_generalized [OF h, of "initialize half" pls_methods
      "new_loop 1 (1 / 10 ^ 5) False Random"]
  have "(case fit_with (initialize half) pls_methods
      ((new_loop 1 (1 / 10 ^ 5) False Random)\<lparr>self_generalized := False\<rparr>)
      [[[1]], [[1]], [[1]]] of
      (w, Inl e) \<Rightarrow> False
    | (w, Inr s) \<Rightarrow> w = [''For more than 2 views require generalized=True'']
        \<and> self_generalized s \<and> self_scores s = [[1], [1], [1]])"
    apply (subst t [THEN conjunct2])
    apply (simp add: pls_methods_def [THEN arg_cong [where f = check_params]] pls_check_params_def)
    apply (simp add: initialize_def new_loop_def initialize_random_def draw_weights_def half_def nrows_def ncols_def)
    apply (simp add: pls_iter_three)
    done
  with h t [THEN conjunct1] show ?thesis by blast
qed

subsection \<open>The update rules\<close>

lemma dot_scale: "dot row (map (\<lambda>a. a / d) w) = dot row w / d"
proof (induction row arbitrary: w)
  case Nil
  then show ?case by (simp add: dot_def)
next
  case (Cons r row)
  then show ?case by (cases w) (simp_all add: dot_def add_divide_distrib)
qed

lemma mat_vec_scale: "mat_vec X (map (\<lambda>a. a / d) w) = map (\<lambda>a. a / d) (mat_vec X w)"
  by (simp add: mat_vec_def dot_scale)

lemma vec_div_unit:
  assumes "vec_div w (norm2 w) = Inr w'" "w \<noteq> []"
  shows "norm2 w' = 1"
proof -
  from assms have n: "norm2 w \<noteq> 0" and w': "w' = map (\<lambda>a. a / norm2 w) w"
    by (auto simp: vec_div_def split: if_splits)
  show ?thesis unfolding w' using n by (rule norm2_normalised)
qed

lemma pls_update_view_unit:
  assumes "pls_update_view s i = Inr s'" "0 < ncols (self_views s ! i)"
  shows "norm2 (self_weights s' ! i) = 1
       \<and> self_scores s' ! i = mat_vec (self_views s' ! i) (self_weights s' ! i)"
proof -
  let ?w = "matT_vec (self_views s ! i) (masked_sum (self_scores s) i)"
  from assms(1) have hv: "has_view s i"
    by (auto simp: pls_update_view_def split: if_splits)
  from assms(1) hv obtain w' where d: "vec_div ?w (norm2 ?w) = Inr w'"
    and s': "s' = s\<lparr>self_weights := (self_weights s)[i := w'],
                     self_scores := (self_scores s)[i := mat_vec (self_views s ! i) w']\<rparr>"
    by (auto simp: pls_update_view_def Let_def has_view_def split: sum.splits)
  have "?w \<noteq> []" using assms(2) by (simp add: matT_vec_def)
  with d have "norm2 w' = 1" by (rule vec_div_unit)
  with hv show ?thesis by (simp add: s' has_view_def)
qed

lemma elastic_update_view_unit:
  assumes "elastic_update_view elastic_solver s i = Inr s'"
  shows "norm2 (mat_vec (self_views s' ! i) (self_weights s' ! i)) = 1
       \<and> self_scores s' ! i = mat_vec (self_views s' ! i) (self_weights s' ! i)"
proof -
  from assms have hv: "has_view s i"
    by (auto simp: elastic_update_view_def split: if_splits sum.splits)
  from assms hv obtain target s1 where
    s1: "elastic_solver s (self_views s ! i) target i = Inr s1"
    and chk: "check_converged_weights (self_weights s1 ! i) i = Inr ()"
    and s': "s' = s1\<lparr>self_scores := (self_scores s1)
                        [i := mat_vec (self_views s1 ! i) (self_weights s1 ! i)]\<rparr>"
    by (auto simp: elastic_update_view_def split: sum.splits)
  let ?coef = "(self_regressors s ! i) (self_views s ! i) target"
  let ?n = "norm2 (mat_vec (self_views s ! i) ?coef)"
  from s1 hv obtain w where d: "vec_div ?coef ?n = Inr w"
    and s1_eq: "s1 = s\<lparr>self_weights := (self_weights s)[i := w]\<rparr>"
    by (auto simp: elastic_solver_def Let_def has_view_def split: sum.splits if_splits)
  have wi: "self_weights s1 ! i = w" using hv by (simp add: s1_eq has_view_def)
  from chk wi have "w \<noteq> []" by (auto simp: check_converged_weights_def split: if_splits)
  with d have n: "?n \<noteq> 0" and w: "w = map (\<lambda>a. a / ?n) ?coef"
    by (auto simp: vec_div_def split: if_splits)
  have "norm2 (mat_vec (self_views s ! i) w) = 1"
    unfolding w mat_vec_scale using n by (rule norm2_normalised)
  with hv wi show ?thesis by (simp add: s' s1_eq has_view_def)
qed

lemma sum_list_split_nth:
  "i < length xs \<Longrightarrow>
   sum_list (map f xs) = (f (xs ! i) :: real) + sum_list (map f (take i xs @ drop (Suc i) xs))"
proof -
  assume i: "i < length xs"
  have "sum_list (map f xs) = sum_list (map f (take i xs @ xs ! i # drop (Suc i) xs))"
    using id_take_nth_drop [OF i] by simp
  then show ?thesis by simp
qed

lemma mean_axis0_nth:
  "j < first_len scores \<Longrightarrow>
   mean_axis0 scores ! j = sum_list (map (\<lambda>r. r ! j) scores) / real (length scores)"
  by (simp add: mean_axis0_def first_len_def Let_def)

text \<open>
  C3 (as amended). In generalized mode the target of the elastic update of view \<open>i\<close>
  is the mean over all views of the score vectors, the score of view \<open>i\<close> included.
  Otherwise it is \<open>scores[view_index - 1]\<close>: with two views the score of the other
  view, and for a view after the first the score of its predecessor.
\<close>

theorem elastic_target_includes_own_score:
  "(self_generalized s \<and> i < length (self_scores s) \<and> j < first_len (self_scores s) \<longrightarrow>
      (\<exists>t. elastic_target s i = Inr t \<and> t = mean_axis0 (self_scores s) \<and>
           t ! j = (self_scores s ! i ! j
                    + sum_list (map (\<lambda>r. r ! j)
                        (take i (self_scores s) @ drop (Suc i) (self_scores s))))
                   / real (length (self_scores s))))
   \<and> (\<not> self_generalized s \<and> length (self_scores s) = 2 \<and> i < 2 \<longrightarrow>
        elastic_target s i = Inr (self_scores s ! (1 - i)))
   \<and> (\<not> self_generalized s \<and> 0 < i \<and> i < length (self_scores s) \<longrightarrow>
        elastic_target s i = Inr (self_scores s ! (i - 1)))"
proof (intro conjI impI)
  assume a: "self_generalized s \<and> i < length (self_scores s) \<and> j < first_len (self_scores s)"
  then show "\<exists>t. elastic_target s i = Inr t \<and> t = mean_axis0 (self_scores s) \<and>
           t ! j = (self_scores s ! i ! j
                    + sum_list (map (\<lambda>r. r ! j)
                        (take i (self_scores s) @ drop (Suc i) (self_scores s))))
                   / real (length (self_scores s))"
    using sum_list_split_nth [of i "self_scores s" "\<lambda>r. r ! j"]
    by (simp add: elastic_target_def mean_axis0_nth)
next
  assume a: "\<not> self_generalized s \<and> length (self_scores s) = 2 \<and> i < 2"
  then have "i = 0 \<or> i = 1" by auto
  with a show "elastic_target s i = Inr (self_scores s ! (1 - i))"
    by (auto simp: elastic_target_def py_index_def)
next
  assume a: "\<not> self_generalized s \<and> 0 < i \<and> i < length (self_scores s)"
  then have "nat (int i - 1) = i - 1" by auto
  with a show "elastic_target s i = Inr (self_scores s ! (i - 1))"
    by (auto simp: elastic_target_def py_index_def)
qed

theorem elastic_target_includes_own_score_witness:
  "self_generalized (two_views\<lparr>self_generalized := True, self_scores := [[1], [3]]\<rparr>) \<and>
   (\<exists>t. elastic_target (two_views\<lparr>self_generalized := True, self_scores := [[1], [3]]\<rparr>) 0 = Inr t
        \<and> t ! 0 = (1 + 3) / 2) \<and>
   elastic_target (two_views\<lparr>self_scores := [[1], [3]]\<rparr>) 0 = Inr [3] \<and>
   elastic_target (two_views\<lparr>self_scores := [[1], [3]]\<rparr>) 1 = Inr [1]"
proof -
  let ?g = "two_views\<lparr>self_generalized := True, self_scores := [[1], [3]]\<rparr>"
  let ?n = "two_views\<lparr>self_scores := [[1], [3]]\<rparr>"
  have g: "self_generalized ?g" by simp
  have n: "\<not> self_generalized ?n" by (simp add: two_views_def new_loop_def)
  from elastic_target_includes_own_score [of ?g 0 0, THEN conjunct1] g
  have 1: "\<exists>t. elastic_target ?g 0 = Inr t \<and> t ! 0 = (1 + 3) / 2"
    by (simp add: first_len_def)
  from elastic_target_includes_own_score [of ?n 0 0, THEN conjunct2, THEN conjunct1] n
  have 2: "elastic_target ?n 0 = Inr [3]" by simp
  from elastic_target_includes_own_score [of ?n 1 0, THEN conjunct2, THEN conjunct2] n
  have 3: "elastic_target ?n 1 = Inr [1]" by simp
  from g 1 2 3 show ?thesis by blast
qed

text \<open>
  C3 (as stated) fails: with the scores \<open>[[1], [3]]\<close> in generalized mode the target
  for view 0 is \<open>[2]\<close>, the mean of both, and not \<open>[3]\<close>, the mean of the others.
\<close>

theorem elastic_target_counterexample:
  "elastic_target (two_views\<lparr>self_generalized := True, self_scores := [[1], [3]]\<rparr>) 0 = Inr [2]
   \<and> spec_mean_of_others [[1], [3]] 0 = [3]"
  by (simp add: elastic_target_def mean_axis0_def spec_mean_of_others_def)

lemma two_views_pls:
  "pls_update_view two_views 0 =
     Inr (two_views\<lparr>self_weights := [[1], [1 / 2]], self_scores := [[2], [1 / 2]]\<rparr>)"
  by (simp add: two_views_def new_loop_def pls_update_view_def has_view_def masked_sum_def
        matT_vec_def ncols_def Let_def norm2_single vec_div_def mat_vec_def dot_def)

lemma two_views_elastic:
  "elastic_update_view elastic_solver two_views 0 =
     Inr (two_views\<lparr>self_weights := [[1 / 2], [1 / 2]], self_scores := [[1], [1 / 2]]\<rparr>)"
  by (simp add: two_views_def new_loop_def elastic_update_view_def elastic_solver_def
        elastic_target_def py_index_def check_converged_weights_def has_view_def
        Let_def norm2_single vec_div_def mat_vec_def dot_def)

lemma pls_iter_two:
  assumes "self_views s = [[[2]], [[2]]]" "self_scores s = [[x], [y]]" "self_weights s = [a, b]" "y > 0"
  shows "inner_iteration pls_methods s = Inr (s\<lparr>self_weights := [[1], [1]], self_scores := [[2], [2]]\<rparr>)"
  using assms
  by (simp add: pls_methods_def pls_inner_iteration_def pls_update_view_def has_view_def
        masked_sum_def matT_vec_def ncols_def Let_def norm2_single vec_div_def mat_vec_def
        dot_def upt_rec numeral_2_eq_2)

lemma pls_objective_two:
  "self_scores s = [[2], [2]] \<Longrightarrow> objective pls_methods s = 4"
  by (simp add: pls_methods_def base_objective_def dot_def)

lemma pls_early_stop_two:
  "self_scores s = [[2], [2]] \<Longrightarrow> self_old_scores s = [[2], [2]] \<Longrightarrow> self_tol s = 1 / 10 ^ 5
     \<Longrightarrow> early_stop pls_methods s"
  by (simp add: pls_methods_def pls_early_stop_def cosine_similarity_gt_def norm2_single dot_def
        upt_rec numeral_2_eq_2)

lemma pls_fit_loop_two:
  assumes "self_views s = [[[2]], [[2]]]" "self_scores s = [[x], [y]]" "self_weights s = [a, b]"
    "y > 0" "self_tol s = 1 / 10 ^ 5" "self_track_objective s = []"
  shows "fit_loop pls_methods 100 0 s =
     Inr (s\<lparr>self_weights := [[1], [1]], self_scores := [[2], [2]], self_old_scores := [[2], [2]],
            self_track_objective := [4, 4]\<rparr>)"
  using assms
  apply (subst fit_loop_pos, simp)
  apply (simp add: pls_iter_two [where x = x and y = y] pls_objective_two Let_def)
  apply (subst fit_loop_pos, simp)
  apply (simp add: pls_iter_two [where x = 2 and y = 2] pls_objective_two Let_def pls_early_stop_two)
  done

subsection \<open>The ADMM update\<close>

text \<open>
  Whatever has two axes keeps them: broadcasting with a two-dimensional array and a
  matrix product with one give a two-dimensional array, if they give one at all.
\<close>

lemma and_then_Inl [simp]: "and_then (Inl e) f = Inl e"
  by (simp add: and_then_def)

lemma and_then_Inr [simp]: "and_then (Inr v) f = f v"
  by (simp add: and_then_def)

lemma and_then_cases:
  "(\<And>v. r = Inr v \<Longrightarrow> \<exists>e. f v = Inl e) \<Longrightarrow> \<exists>e. and_then r f = Inl e"
  by (cases r) simp_all

lemma and_then_raises: "\<exists>e. r = Inl e \<Longrightarrow> \<exists>e. and_then r f = Inl e"
  by auto

lemma broadcast_two_axes_right:
  "broadcast f a (Arr2 B) = Inr r \<Longrightarrow> \<exists>R. r = Arr2 R"
  by (cases a) (auto simp: broadcast_def and_then_def split: sum.splits)

lemma broadcast_two_axes_left:
  "broadcast f (Arr2 A) b = Inr r \<Longrightarrow> \<exists>R. r = Arr2 R"
  by (cases b) (auto simp: broadcast_def and_then_def split: sum.splits)

lemma matmul_two_axes: "matmul A (Arr2 B) = Inr r \<Longrightarrow> \<exists>R. r = Arr2 R"
  by (auto simp: matmul_def split: if_splits)

lemma getitem_mask_too_many_indices: "getitem_mask (Arr1 v) (Arr2 M) = Inl IndexError"
  by (simp add: getitem_mask_def)

lemma nd_map_two_axes [simp]: "nd_map f (Arr2 R) = Arr2 (map (map f) R)"
  by (simp add: nd_map_def)

lemma prox_mu_f_two_axes: "\<exists>e. prox_mu_f (Arr2 A) mu c tau = Inl e"
proof (cases "broadcast (\<lambda>a b. a + b) (Arr2 A) (Arr1 (map (\<lambda>g. mu * g) c))")
  case (Inl e)
  then show ?thesis by (simp add: prox_mu_f_def)
next
  case (Inr r)
  then obtain R where r: "r = Arr2 R" using broadcast_two_axes_left by blast
  show ?thesis
  proof (cases "getitem_mask (Arr2 A) (Arr2 (map (map (\<lambda>a. a > mu * tau)) R))")
    case (Inl e)
    with Inr r show ?thesis by (simp add: prox_mu_f_def)
  next
    case x: (Inr x_1)
    with Inr r show ?thesis by (simp add: prox_mu_f_def getitem_mask_too_many_indices)
  qed
qed

lemma admm_body_two_axes:
  assumes "view_index < length (admm_z s) \<longrightarrow> (\<exists>Z. admm_z s ! view_index = Arr2 Z)"
  shows "\<exists>e. admm_body view_index mu lam gradient N (s, t) = Inl e"
proof -
  have step: "\<exists>e. and_then (matmul A (Arr2 D)) (\<lambda>step.
      and_then (broadcast (\<lambda>a b. a - b) w step) (\<lambda>x.
      and_then c (\<lambda>c. and_then (prox_mu_f x mu gradient (N * c)) f))) = Inl e"
    for A D w c and f :: "real ndarray \<Rightarrow> error + admm \<times> admm_trace"
    apply (rule and_then_cases)
    apply (drule matmul_two_axes, clarify)
    apply (rule and_then_cases)
    apply (drule broadcast_two_axes_right, clarify)
    apply (rule and_then_cases)
    apply (rule and_then_raises)
    apply (rule prox_mu_f_two_axes)
    done
  show ?thesis
    unfolding admm_body_def Let_def prod.case
    apply (rule and_then_cases)
    apply (cases "lam = 0", simp)
    apply (simp only: if_False)
    apply (rule and_then_cases)
    apply (rule and_then_cases)
    apply (rule and_then_cases)
    apply (rule and_then_cases)
    apply (rule and_then_cases)
    subgoal for w Xw z d eta d'
      using assms
      apply (simp add: item_def split: if_splits)
      apply clarify
      apply (drule broadcast_two_axes_right, clarify)
      apply (drule broadcast_two_axes_left, clarify)
      apply (rule step)
      done
    done
qed

lemma admm_loop_two_axes:
  assumes "view_index < length (admm_z s) \<longrightarrow> (\<exists>Z. admm_z s ! view_index = Arr2 Z)" "0 < n"
  shows "\<exists>e. admm_loop n view_index mu lam gradient N (s, t) = Inl e"
proof -
  from assms(2) obtain k where n: "n = Suc k" by (cases n) auto
  from admm_body_two_axes [OF assms(1)] obtain e
    where "admm_body view_index mu lam gradient N (s, t) = Inl e" by blast
  then show ?thesis by (simp add: n)
qed

lemma admm_update_view_two_axes:
  assumes "view_index < length (admm_z s) \<longrightarrow> (\<exists>Z. admm_z s ! view_index = Arr2 Z)"
    "0 < admm_max_iter s"
  shows "\<exists>e. admm_update_view s view_index = Inl e"
proof -
  from assms(2) have n: "0 < nat (admm_max_iter s)" by simp
  show ?thesis
  proof (cases "view_index < length (admm_scores s) \<and> view_index < length (admm_views s)")
    case False
    then show ?thesis by (simp add: admm_update_view_def)
  next
    case True
    show ?thesis
    proof (cases "param_at (admm_mu s) view_index")
      case None
      with True show ?thesis by (simp add: admm_update_view_def)
    next
      case mu: (Some mu)
      show ?thesis
      proof (cases "param_at (admm_lam s) view_index")
        case None
        with True mu show ?thesis by (simp add: admm_update_view_def)
      next
        case lam: (Some lam)
        from True mu lam show ?thesis
          unfolding admm_update_view_def Let_def
          apply (simp only: simp_thms if_False option.case prod.case)
          apply (rule and_then_raises)
          apply (rule admm_loop_two_axes [OF assms(1) n])
          done
      qed
    qed
  qed
qed

lemma admm_inner_iteration_two_axes:
  assumes "0 < length (admm_z s) \<longrightarrow> (\<exists>Z. admm_z s ! 0 = Arr2 Z)"
    "0 < admm_max_iter s" "admm_views s \<noteq> []"
  shows "\<exists>e. admm_inner_iteration s = Inl e"
proof -
  from assms(3) have "[0..<length (admm_views s)] = 0 # [1..<length (admm_views s)]"
    by (simp add: upt_rec)
  moreover from admm_update_view_two_axes [OF assms(1,2)] obtain e
    where "admm_update_view s 0 = Inl e" by blast
  ultimately show ?thesis by (simp add: admm_inner_iteration_def)
qed

lemma admm_check_params_shapes:
  assumes "admm_check_params check_Parikh2014 s = Inr s'"
  shows "admm_z s' = map (\<lambda>view. Arr2 (replicate (nrows view) [0])) (admm_views s)
    \<and> admm_views s' = admm_views s \<and> admm_max_iter s' = admm_max_iter s"
  using assms
  by (auto simp: admm_check_params_def and_then_def split: sum.splits if_splits)

text \<open>
  With \<open>eta\<close> and \<open>z\<close> of one axis, of the length of the scores, the same pass
  returns: it is the shape \<open>(N, 1)\<close> that makes the loop body raise.
\<close>

lemma admm_example_one_axis:
  "admm_body 0 (1 / 4) 1 [1] 1
     (admm_example\<lparr>admm_eta := [Arr1 [0], Arr1 [0]], admm_z := [Arr1 [0], Arr1 [0]]\<rparr>, no_trace) =
   Inr (admm_example\<lparr>admm_eta := [Arr1 [0], Arr1 [0]], admm_z := [Arr1 [1 / 2], Arr1 [0]],
                     admm_weights := [Arr1 [1 / 4], Arr1 [1 / 2]], admm_stdout := [''here'']\<rparr>,
        \<lparr>unnorm_z = [1 / 2], norm_eta = [0], norm_weights = [1 / 4], norm_proj = [1 / 2]\<rparr>)"
  by (simp add: admm_body_def admm_example_def admm_example_args_def item_def matmul_def
      ncols_def mat_vec_def dot_def broadcast_def broadcast1_def compatible_def
      bdim_def pick_def transposed_def param_at_def prox_mu_f_def getitem_mask_def
      setitem_mask_def setitem_mask_scalar_def mask_values_def count_true_def nd_map_def
      select_def nd_norm_def nd_norm1_def entries_def norm2_single norm1_def prox_lam_g_nd_def
      no_trace_def Let_def)

lemma admm_example_check_params:
  "admm_check_params (\<lambda>mu lam views. Inr ()) admm_example_args =
     Inr (admm_example\<lparr>admm_scores := [], admm_weights := []\<rparr>)"
  by (simp add: admm_check_params_def admm_example_args_def admm_example_def
      process_parameter_def default_mu_def norm2_single nrows_def numeral_2_eq_2)

lemma admm_example_first_pass:
  "admm_body 0 (1 / 4) 1 [1] 1 (admm_example, no_trace) = Inl IndexError"
  by (simp add: admm_body_def admm_example_def admm_example_args_def item_def matmul_def
      ncols_def mat_vec_def dot_def broadcast_def broadcast2_def broadcast1_def compatible_def
      width_def bdim_def pick_def transposed_def param_at_def prox_mu_f_def getitem_mask_def
      select_def)

lemma admm_example_update_view:
  "admm_update_view admm_example 0 = Inl IndexError"
proof -
  have "admm_loop 2 0 (1 / 4) 1 [1] 1 (admm_example, no_trace) = Inl IndexError"
    by (simp add: numeral_2_eq_2 admm_example_first_pass)
  then show ?thesis
    by (simp add: admm_update_view_def admm_example_def admm_example_args_def masked_sum_def
      matT_vec_def ncols_def nrows_def param_at_def no_trace_def)
qed

text \<open>
  C6. The claim fails in the program. For \<open>ADMMInnerLoop(max_iter=2)\<close> and the two views
  \<open>[[2.0]]\<close>, \<open>check_params\<close> leaves \<open>eta\<close> and \<open>z\<close> of shape \<open>(1, 1)\<close>, and the
  first pass of the inner loop of \<open>update_view(0)\<close> raises IndexError, at \<open>c[mask_1]\<close>
  in \<open>prox_mu_f\<close>: the loop body is executed not even once in full, and \<open>update_view\<close>
  ends with that exception.
\<close>

theorem admm_inner_loop_raises_in_first_pass:
  "admm_check_params (\<lambda>mu lam views. Inr ()) admm_example_args =
     Inr (admm_example\<lparr>admm_scores := [], admm_weights := []\<rparr>)
   \<and> admm_body 0 (1 / 4) 1 [1] 1 (admm_example, no_trace) = Inl IndexError
   \<and> admm_update_view admm_example 0 = Inl IndexError"
  using admm_example_check_params admm_example_first_pass admm_example_update_view
  by simp

end
